theory Spec2Isabelle
  imports Main
begin

section \<open>The meetup registry of bot.py\<close>

text \<open>
  The state-bearing part of the bot is the file \<^verbatim>\<open>data/meetups.json\<close> and the three
  functions and three commands that read and write it. Python integers are
  \<^typ>\<open>int\<close>. The texts that the program only stores and shows (title, description,
  place, status, the stored date) are of type \<^typ>\<open>string\<close>; the two texts whose
  characters the program inspects, the date and the time given to a create, are lists
  of Unicode code points.
\<close>

subsection \<open>Data model\<close>

text \<open>One entry of the list stored under the key \<^verbatim>\<open>"meetups"\<close> (bot.py, lines 210-218).\<close>

record meetup =
  meetup_id :: int
  title :: string
  description :: string
  date :: string
  location :: string
  status :: string
  participants :: "string list"

text \<open>The whole document, \<^verbatim>\<open>{"meetups": [...]}\<close>.\<close>

record meetups_data =
  meetups :: "meetup list"

text \<open>
  The file \<^verbatim>\<open>MEETUPS_FILE\<close> as \<^verbatim>\<open>json.load\<close> sees it: it is absent, or it holds
  bytes that are not a JSON text (kept, so that equal states are equal byte for byte),
  or it holds the JSON text of a document.
\<close>

datatype meetups_file = Missing | Unparsable string | Document meetups_data

datatype py_exception = FileNotFoundError | JSONDecodeError | ValueError

subsection \<open>Storage (bot.py, lines 38-58)\<close>

definition default_meetups :: meetups_data where
  "default_meetups = \<lparr>meetups = []\<rparr>"

text \<open>Lines 38-41, run once when the module is loaded: a missing file is created empty.\<close>

fun startup :: "meetups_file \<Rightarrow> meetups_file" where
  "startup Missing = Document default_meetups"
| "startup f = f"

text \<open>\<^verbatim>\<open>open(MEETUPS_FILE, 'r')\<close> followed by \<^verbatim>\<open>json.load(f)\<close>, with what they raise.\<close>

fun json_load :: "meetups_file \<Rightarrow> py_exception + meetups_data" where
  "json_load Missing = Inl FileNotFoundError"
| "json_load (Unparsable s) = Inl JSONDecodeError"
| "json_load (Document d) = Inr d"

text \<open>
  \<^verbatim>\<open>get_meetups\<close> (lines 43-49): every exception is caught and logged, and the empty
  document is returned in its place.
\<close>

definition get_meetups :: "meetups_file \<Rightarrow> meetups_data" where
  "get_meetups f = (case json_load f of Inr d \<Rightarrow> d | Inl e \<Rightarrow> \<lparr>meetups = []\<rparr>)"

text \<open>
  What the environment does to a write. \<^verbatim>\<open>open(MEETUPS_FILE, 'w')\<close> truncates the
  file itself before \<^verbatim>\<open>json.dump\<close> writes into it, so a write has three outcomes:
  it completes; \<^verbatim>\<open>open\<close> raises and the file is untouched; or the write raises after
  the file was opened, and the file is left holding the bytes written so far (possibly
  none), a proper prefix of the new text, which is not a JSON text.
\<close>

datatype write_outcome = WriteOk | OpenFails | DumpFails string

text \<open>
  \<^verbatim>\<open>save_meetups\<close> (lines 51-58): returns \<^verbatim>\<open>True\<close>, or \<^verbatim>\<open>False\<close> when an
  exception was caught. The new state of the file is returned with it.
\<close>

fun save_meetups :: "write_outcome \<Rightarrow> meetups_data \<Rightarrow> meetups_file \<Rightarrow> meetups_file \<times> bool" where
  "save_meetups WriteOk d f = (Document d, True)"
| "save_meetups OpenFails d f = (f, False)"
| "save_meetups (DumpFails written) d f = (Unparsable written, False)"

subsection \<open>Identifier allocation (bot.py, lines 60-63)\<close>

text \<open>
  \<^verbatim>\<open>max(ids) + 1 if ids else 1\<close>: \<^verbatim>\<open>max\<close> is only called on a non-empty list,
  where it folds the binary maximum over the elements.
\<close>

definition generate_meetup_id :: "meetups_file \<Rightarrow> int" where
  "generate_meetup_id f =
     (let meetups_data = get_meetups f;
          ids = map meetup_id (meetups meetups_data)
      in case ids of [] \<Rightarrow> 1 | x # xs \<Rightarrow> fold max xs x + 1)"

subsection \<open>Texts and numbers\<close>

type_synonym py_str = "nat list"

text \<open>A text of type \<^typ>\<open>string\<close> as the list of its code points.\<close>

definition str :: "string \<Rightarrow> py_str" where
  "str s = map of_char s"

text \<open>
  The decimal digits of Python's Unicode database, which both the pattern element
  \<^verbatim>\<open>\d\<close> and \<^verbatim>\<open>int\<close> consult: they come in runs of ten consecutive code
  points, the digits 0 to 9 of one script, and the table lists the first code point
  of each run, from the ASCII digits (48) on. The table is that of Unicode 14.0, which
  Python 3.11 carries; later versions add scripts.
\<close>

definition unicode_zeros :: "nat list" where
  "unicode_zeros =
     [48, 1632, 1776, 1984, 2406, 2534, 2662, 2790, 2918, 3046, 3174, 3302, 3430, 3558,
      3664, 3792, 3872, 4160, 4240, 6112, 6160, 6470, 6608, 6784, 6800, 6992, 7088, 7232,
      7248, 42528, 43216, 43264, 43472, 43504, 43600, 44016, 65296, 66720, 68912, 69734,
      69872, 69942, 70096, 70384, 70736, 70864, 71248, 71360, 71472, 71904, 72016, 72784,
      73040, 73120, 92768, 92864, 93008, 120782, 120792, 120802, 120812, 120822, 123200,
      123632, 125264, 130032]"

definition decimal :: "nat \<Rightarrow> nat option" where
  "decimal c = map_option (\<lambda>z. c - z) (find (\<lambda>z. z \<le> c \<and> c < z + 10) unicode_zeros)"

definition is_digit :: "nat \<Rightarrow> bool" where
  "is_digit c = (decimal c \<noteq> None)"

definition digit_val :: "nat \<Rightarrow> nat" where
  "digit_val c = (case decimal c of None \<Rightarrow> 0 | Some v \<Rightarrow> v)"

text \<open>
  The white space that \<^verbatim>\<open>int\<close> drops from both ends of its argument: of the ASCII
  characters, the code points 9 to 13 and the space; above ASCII, the code points that
  Python's Unicode database marks as white space.
\<close>

definition is_space :: "nat \<Rightarrow> bool" where
  "is_space c =
     ((9 \<le> c \<and> c \<le> 13) \<or> c = 32 \<or> c = 133 \<or> c = 160 \<or> c = 5760
      \<or> (8192 \<le> c \<and> c \<le> 8202) \<or> c = 8232 \<or> c = 8233 \<or> c = 8239 \<or> c = 8287
      \<or> c = 12288)"

definition py_strip :: "py_str \<Rightarrow> py_str" where
  "py_strip s = rev (dropWhile is_space (rev (dropWhile is_space s)))"

text \<open>
  The digits after the first one: each is a digit, or one underscore (95) followed by
  a digit.
\<close>

fun int_digits :: "nat \<Rightarrow> py_str \<Rightarrow> nat option" where
  "int_digits acc [] = Some acc"
| "int_digits acc (c # cs) =
     (if is_digit c then int_digits (10 * acc + digit_val c) cs
      else if c = 95 then
        (case cs of
           [] \<Rightarrow> None
         | d # ds \<Rightarrow> if is_digit d then int_digits (10 * acc + digit_val d) ds else None)
      else None)"

text \<open>
  Python's \<^verbatim>\<open>int(s)\<close> on a text, base ten: white space around the number is
  dropped, one sign (\<^verbatim>\<open>-\<close>, 45, or \<^verbatim>\<open>+\<close>, 43) may come first, and
  \<^verbatim>\<open>ValueError\<close> is raised for anything else. (The interpreter's limit on the
  number of digits is far above the five characters that reach \<^verbatim>\<open>int\<close> here.)
\<close>

definition py_int :: "py_str \<Rightarrow> py_exception + int" where
  "py_int s =
     (let t = py_strip s;
          negative = (t \<noteq> [] \<and> hd t = 45);
          body = (if t \<noteq> [] \<and> (hd t = 45 \<or> hd t = 43) then tl t else t)
      in case body of
           [] \<Rightarrow> Inl ValueError
         | c # cs \<Rightarrow>
             if is_digit c then
               (case int_digits (digit_val c) cs of
                  None \<Rightarrow> Inl ValueError
                | Some n \<Rightarrow> Inr (if negative then - int n else int n))
             else Inl ValueError)"

text \<open>\<^verbatim>\<open>s.split(sep)\<close> for a separator of one character.\<close>

fun split_sep :: "nat \<Rightarrow> py_str \<Rightarrow> py_str list" where
  "split_sep sep [] = [] # []"
| "split_sep sep (c # cs) =
     (if c = sep then [] # split_sep sep cs
      else (case split_sep sep cs of [] \<Rightarrow> [c] # [] | w # ws \<Rightarrow> (c # w) # ws))"

subsection \<open>The two patterns (bot.py, lines 191-192)\<close>

text \<open>
  \<^verbatim>\<open>re.match\<close> anchors the pattern at the start of the text. Both patterns are read
  from left to right without choice points: a fixed number of digits, a literal
  character (the hyphen, 45, or the colon, 58), and at the end \<^verbatim>\<open>$\<close>, which in
  Python matches at the end of the text and also just before a line feed (10) that is
  the last character of the text.
\<close>

fun match_digits :: "nat \<Rightarrow> py_str \<Rightarrow> py_str option" where
  "match_digits 0 s = Some s"
| "match_digits (Suc n) [] = None"
| "match_digits (Suc n) (c # cs) = (if is_digit c then match_digits n cs else None)"

fun match_char :: "nat \<Rightarrow> py_str \<Rightarrow> py_str option" where
  "match_char c [] = None"
| "match_char c (x # xs) = (if x = c then Some xs else None)"

definition match_end :: "py_str \<Rightarrow> bool" where
  "match_end s = (s = [] \<or> s = [10])"

definition date_regex :: "py_str \<Rightarrow> bool" where
  "date_regex s =
     (case Option.bind (Option.bind (Option.bind (Option.bind
             (match_digits 4 s) (match_char 45)) (match_digits 2))
             (match_char 45)) (match_digits 2) of
        None \<Rightarrow> False
      | Some r \<Rightarrow> match_end r)"

definition time_regex :: "py_str \<Rightarrow> bool" where
  "time_regex s =
     (case Option.bind (Option.bind (match_digits 2 s) (match_char 58))
             (match_digits 2) of
        None \<Rightarrow> False
      | Some r \<Rightarrow> match_end r)"

subsection \<open>The datetime of Python's standard library\<close>

record datetime =
  year :: int
  month :: int
  day :: int
  hour :: int
  minute :: int

text \<open>
  The library's own table and functions: \<^verbatim>\<open>_DAYS_IN_MONTH\<close>, indexed by the month
  with an unused entry at 0, \<^verbatim>\<open>_is_leap\<close> and \<^verbatim>\<open>_days_in_month\<close>.
\<close>

definition DAYS_IN_MONTH :: "int list" where
  "DAYS_IN_MONTH = [-1, 31, 28, 31, 30, 31, 30, 31, 31, 30, 31, 30, 31]"

definition is_leap :: "int \<Rightarrow> bool" where
  "is_leap y = (y mod 4 = 0 \<and> (y mod 100 \<noteq> 0 \<or> y mod 400 = 0))"

definition days_in_month :: "int \<Rightarrow> int \<Rightarrow> int" where
  "days_in_month y m = (if m = 2 \<and> is_leap y then 29 else DAYS_IN_MONTH ! nat m)"

text \<open>
  \<^verbatim>\<open>datetime.datetime(year, month, day, hours, minutes, tzinfo=utc)\<close>: the constructor
  checks the fields in turn and raises \<^verbatim>\<open>ValueError\<close> unless the year is between 1
  and 9999, the month between 1 and 12, the day between 1 and the number of days of
  that month, the hour between 0 and 23 and the minute between 0 and 59.
\<close>

definition mk_datetime :: "int \<Rightarrow> int \<Rightarrow> int \<Rightarrow> int \<Rightarrow> int \<Rightarrow> py_exception + datetime" where
  "mk_datetime y m d h mi =
     (if \<not> (1 \<le> y \<and> y \<le> 9999) then Inl ValueError
      else if \<not> (1 \<le> m \<and> m \<le> 12) then Inl ValueError
      else if \<not> (1 \<le> d \<and> d \<le> days_in_month y m) then Inl ValueError
      else if \<not> (0 \<le> h \<and> h \<le> 23) then Inl ValueError
      else if \<not> (0 \<le> mi \<and> mi \<le> 59) then Inl ValueError
      else Inr \<lparr>year = y, month = m, day = d, hour = h, minute = mi\<rparr>)"

definition digit_char :: "nat \<Rightarrow> char" where
  "digit_char n = char_of (48 + n)"

definition zfill2 :: "nat \<Rightarrow> string" where
  "zfill2 n = [digit_char (n div 10 mod 10), digit_char (n mod 10)]"

definition zfill4 :: "nat \<Rightarrow> string" where
  "zfill4 n = [digit_char (n div 1000 mod 10), digit_char (n div 100 mod 10),
               digit_char (n div 10 mod 10), digit_char (n mod 10)]"

text \<open>
  \<^verbatim>\<open>date.isoformat()\<close> for a datetime in UTC whose seconds and microseconds are
  zero: \<^verbatim>\<open>YYYY-MM-DDTHH:MM:00+00:00\<close>, in ASCII digits.
\<close>

definition isoformat :: "datetime \<Rightarrow> string" where
  "isoformat dt =
     zfill4 (nat (year dt)) @ ''-'' @ zfill2 (nat (month dt)) @ ''-'' @ zfill2 (nat (day dt))
     @ ''T'' @ zfill2 (nat (hour dt)) @ '':'' @ zfill2 (nat (minute dt)) @ '':00+00:00''"

subsection \<open>The commands\<close>

text \<open>
  The outcome of a command, one constructor for each message that a callback sends
  through \<^verbatim>\<open>interaction.response.send_message\<close>, and one for an invocation that
  does not reach the callback:
  \<^item> \<open>BadDateFormat\<close>: line 195, the date is not of the form YYYY-MM-DD;
  \<^item> \<open>BadTimeFormat\<close>: line 199, the time is not of the form HH:MM;
  \<^item> \<open>InvalidDateTime\<close>: line 207, date and time are not valid;
  \<^item> \<open>Created m\<close>: lines 224-240, the embed of the new meetup \<open>m\<close> with its join button;
  \<^item> \<open>CreateFailed\<close>: line 242;
  \<^item> \<open>NoPermission\<close>: line 415;
  \<^item> \<open>NotFound k\<close>: line 427, no meetup has the id \<open>k\<close>;
  \<^item> \<open>Deleted m\<close>: lines 435-445, the embed naming the removed meetup \<open>m\<close>;
  \<^item> \<open>DeleteFailed\<close>: line 447;
  \<^item> \<open>NoMeetups\<close>: line 135;
  \<^item> \<open>MeetupList ms\<close>: lines 138-166, an embed with one field and one join button for
    each meetup of \<open>ms\<close>, in that order;
  \<^item> \<open>InvalidChoice\<close>: the value given for an option is none of the choices declared
    for it (lines 177-180); the invocation is not accepted and no callback runs.
\<close>

datatype response =
    BadDateFormat
  | BadTimeFormat
  | InvalidDateTime
  | Created meetup
  | CreateFailed
  | NoPermission
  | NotFound int
  | Deleted meetup
  | DeleteFailed
  | NoMeetups
  | MeetupList "meetup list"
  | InvalidChoice

text \<open>Lines 202-205: the body of the \<^verbatim>\<open>try\<close> block.\<close>

definition parse_fecha_hora :: "py_str \<Rightarrow> py_str \<Rightarrow> py_exception + datetime" where
  "parse_fecha_hora fecha hora =
     (case map py_int (split_sep 45 fecha) of
        [Inr y, Inr m, Inr d] \<Rightarrow>
          (case map py_int (split_sep 58 hora) of
             [Inr h, Inr mi] \<Rightarrow> mk_datetime y m d h mi
           | _ \<Rightarrow> Inl ValueError)
      | _ \<Rightarrow> Inl ValueError)"

text \<open>
  The callback \<^verbatim>\<open>crear_quedada\<close> (lines 181-242). The outcome of the write is
  supplied by the environment; the callback returns its response and the new state of
  the file.
\<close>

definition crear_quedada ::
  "string \<Rightarrow> string \<Rightarrow> py_str \<Rightarrow> py_str \<Rightarrow> string \<Rightarrow> string \<Rightarrow> write_outcome \<Rightarrow> meetups_file
     \<Rightarrow> response \<times> meetups_file" where
  "crear_quedada titulo descripcion fecha hora lugar estado w f =
     (if \<not> date_regex fecha then (BadDateFormat, f)
      else if \<not> time_regex hora then (BadTimeFormat, f)
      else case parse_fecha_hora fecha hora of
        Inl e \<Rightarrow> (InvalidDateTime, f)
      | Inr dt \<Rightarrow>
          (let new_meetup = \<lparr>meetup_id = generate_meetup_id f, title = titulo,
                             description = descripcion, date = isoformat dt,
                             location = lugar, status = estado, participants = []\<rparr>;
               meetups_data = get_meetups f;
               meetups_data = meetups_data\<lparr>meetups := meetups meetups_data @ [new_meetup]\<rparr>;
               (f', saved) = save_meetups w meetups_data f
           in if saved then (Created new_meetup, f') else (CreateFailed, f')))"

text \<open>The choices declared for \<^verbatim>\<open>estado\<close> (lines 177-180).\<close>

definition estado_choices :: "string list" where
  "estado_choices = [''activo'', ''pendiente'']"

text \<open>
  The command \<^verbatim>\<open>crear-quedada\<close> that the decorators of lines 168-180 make of the
  callback and register in the command tree, through which alone the callback runs: a
  value of \<^verbatim>\<open>estado\<close> that is none of the declared choices is not accepted, and the
  callback runs for the others.
\<close>

definition crear_quedada_command ::
  "string \<Rightarrow> string \<Rightarrow> py_str \<Rightarrow> py_str \<Rightarrow> string \<Rightarrow> string \<Rightarrow> write_outcome \<Rightarrow> meetups_file
     \<Rightarrow> response \<times> meetups_file" where
  "crear_quedada_command titulo descripcion fecha hora lugar estado w f =
     (if estado \<in> set estado_choices
      then crear_quedada titulo descripcion fecha hora lugar estado w f
      else (InvalidChoice, f))"

text \<open>The search loop of \<^verbatim>\<open>eliminar_quedada\<close> (lines 420-424): the first index whose
  meetup has the id.\<close>

fun find_meetup_index :: "int \<Rightarrow> meetup list \<Rightarrow> nat option" where
  "find_meetup_index k [] = None"
| "find_meetup_index k (m # ms) =
     (if meetup_id m = k then Some 0 else map_option Suc (find_meetup_index k ms))"

text \<open>
  \<^verbatim>\<open>eliminar_quedada\<close> (lines 413-447); the first argument is
  \<^verbatim>\<open>interaction.user.guild_permissions.manage_messages\<close>.
\<close>

definition eliminar_quedada ::
  "bool \<Rightarrow> int \<Rightarrow> write_outcome \<Rightarrow> meetups_file \<Rightarrow> response \<times> meetups_file" where
  "eliminar_quedada manage_messages id_quedada w f =
     (if \<not> manage_messages then (NoPermission, f)
      else
        (let meetups_data = get_meetups f
         in case find_meetup_index id_quedada (meetups meetups_data) of
              None \<Rightarrow> (NotFound id_quedada, f)
            | Some meetup_index \<Rightarrow>
                (let meetup = meetups meetups_data ! meetup_index;
                     meetups_data = meetups_data\<lparr>meetups :=
                        take meetup_index (meetups meetups_data)
                        @ drop (Suc meetup_index) (meetups meetups_data)\<rparr>;
                     (f', saved) = save_meetups w meetups_data f
                 in if saved then (Deleted meetup, f') else (DeleteFailed, f'))))"

text \<open>\<^verbatim>\<open>meetup["date"].replace('Z', '+00:00')\<close> (line 150).\<close>

fun replace_Z :: "string \<Rightarrow> string" where
  "replace_Z [] = []"
| "replace_Z (c # cs) = (if c = CHR ''Z'' then ''+00:00'' @ replace_Z cs else c # replace_Z cs)"

text \<open>
  The loop of \<^verbatim>\<open>quedadas\<close> (lines 148-164), which adds a field and a button for one
  meetup after the other; \<open>n\<close> is the number of buttons that the view holds. It raises
  for the first meetup whose date \<^verbatim>\<open>datetime.fromisoformat\<close> does not accept, and
  for the meetup whose button would be the 26th: \<^verbatim>\<open>View.add_item\<close> refuses more than
  25 children. Which texts \<^verbatim>\<open>fromisoformat\<close> accepts depends on the version of
  Python, and is a parameter.
\<close>

fun add_meetups :: "(string \<Rightarrow> bool) \<Rightarrow> nat \<Rightarrow> meetup list \<Rightarrow> py_exception option" where
  "add_meetups fromisoformat n [] = None"
| "add_meetups fromisoformat n (m # ms) =
     (if \<not> fromisoformat (replace_Z (date m)) then Some ValueError
      else if 25 \<le> n then Some ValueError
      else add_meetups fromisoformat (Suc n) ms)"

text \<open>
  \<^verbatim>\<open>quedadas\<close> (lines 131-166): when the loop raises, the callback ends with the
  exception and sends nothing.
\<close>

definition quedadas :: "(string \<Rightarrow> bool) \<Rightarrow> meetups_file \<Rightarrow> py_exception + response" where
  "quedadas fromisoformat f =
     (let meetups_data = get_meetups f
      in if meetups meetups_data = [] then Inr NoMeetups
         else (case add_meetups fromisoformat 0 (meetups meetups_data) of
                 Some e \<Rightarrow> Inl e
               | None \<Rightarrow> Inr (MeetupList (meetups meetups_data))))"

subsection \<open>Commands executed one at a time\<close>

datatype command =
    Crear string string py_str py_str string string
  | Eliminar bool int

fun step :: "command \<times> write_outcome \<Rightarrow> meetups_file \<Rightarrow> response \<times> meetups_file" where
  "step (Crear titulo descripcion fecha hora lugar estado, w) f =
     crear_quedada_command titulo descripcion fecha hora lugar estado w f"
| "step (Eliminar manage_messages id_quedada, w) f =
     eliminar_quedada manage_messages id_quedada w f"

fun run :: "(command \<times> write_outcome) list \<Rightarrow> meetups_file \<Rightarrow> response list \<times> meetups_file" where
  "run [] f = ([], f)"
| "run (c # cs) f =
     (let (r, f') = step c f; (rs, f'') = run cs f' in (r # rs, f''))"

subsection \<open>Notions used in the statements\<close>

text \<open>The ids of the registry that a load returns (line 62).\<close>

definition registry_ids :: "meetups_file \<Rightarrow> int list" where
  "registry_ids f = map meetup_id (meetups (get_meetups f))"

text \<open>The invariant of the registry: the ids are pairwise distinct and positive.\<close>

definition registry_ok :: "meetups_file \<Rightarrow> bool" where
  "registry_ok f = (distinct (registry_ids f) \<and> list_all (\<lambda>k. 0 < k) (registry_ids f))"

text \<open>The ids that the creates of a run returned, in the order of the run.\<close>

fun created_ids :: "response list \<Rightarrow> int list" where
  "created_ids [] = []"
| "created_ids (Created m # rs) = meetup_id m # created_ids rs"
| "created_ids (r # rs) = created_ids rs"

text \<open>A create whose write, if it fails, fails before the file is opened.\<close>

fun create_only :: "command \<times> write_outcome \<Rightarrow> bool" where
  "create_only (Crear titulo descripcion fecha hora lugar estado, DumpFails written) = False"
| "create_only (Crear titulo descripcion fecha hora lugar estado, w) = True"
| "create_only (Eliminar manage_messages id_quedada, w) = False"

text \<open>The three answers that reject the date or the time of a create.\<close>

fun date_rejected :: "response \<Rightarrow> bool" where
  "date_rejected BadDateFormat = True"
| "date_rejected BadTimeFormat = True"
| "date_rejected InvalidDateTime = True"
| "date_rejected r = False"

text \<open>
  What the date and the time given to a create denote. A date is written as four
  decimal digits, a hyphen, two digits, a hyphen and two digits, and a time as two
  digits, a colon and two digits, each alone or closed by one line feed; the digits
  give the numbers in base ten.
\<close>

definition drop_line_feed :: "py_str \<Rightarrow> py_str" where
  "drop_line_feed s = (if s \<noteq> [] \<and> last s = 10 then butlast s else s)"

definition number :: "py_str \<Rightarrow> nat" where
  "number ds = foldl (\<lambda>n c. 10 * n + digit_val c) 0 ds"

definition read_date :: "py_str \<Rightarrow> (nat \<times> nat \<times> nat) option" where
  "read_date s =
     (let t = drop_line_feed s
      in if length t = 10 \<and> t ! 4 = 45 \<and> t ! 7 = 45 \<and> list_all is_digit (take 4 t)
            \<and> list_all is_digit (take 2 (drop 5 t)) \<and> list_all is_digit (drop 8 t)
         then Some (number (take 4 t), number (take 2 (drop 5 t)), number (drop 8 t))
         else None)"

definition read_time :: "py_str \<Rightarrow> (nat \<times> nat) option" where
  "read_time s =
     (let t = drop_line_feed s
      in if length t = 5 \<and> t ! 2 = 58 \<and> list_all is_digit (take 2 t)
            \<and> list_all is_digit (drop 3 t)
         then Some (number (take 2 t), number (drop 3 t))
         else None)"

text \<open>
  The dates of the calendar and the times of day: a year from 1 to 9999 (the years of
  Python's \<^verbatim>\<open>datetime\<close>), a month from 1 to 12, a day from 1 to 30 in April,
  June, September and November, to 28 in February, or 29 when the year is a leap
  year, and to 31 in the other months; an hour below 24 and a minute below 60. A year is
  a leap year when 4 divides it and 100 does not, or 400 divides it.
\<close>

definition leap_year :: "nat \<Rightarrow> bool" where
  "leap_year y = ((4 dvd y \<and> \<not> 100 dvd y) \<or> 400 dvd y)"

definition valid_calendar :: "nat \<Rightarrow> nat \<Rightarrow> nat \<Rightarrow> nat \<Rightarrow> nat \<Rightarrow> bool" where
  "valid_calendar y m d h mi =
     (1 \<le> y \<and> y \<le> 9999 \<and> 1 \<le> m \<and> m \<le> 12 \<and> 1 \<le> d
      \<and> d \<le> (if m = 4 \<or> m = 6 \<or> m = 9 \<or> m = 11 then 30
               else if m = 2 then (if leap_year y then 29 else 28)
               else 31)
      \<and> h < 24 \<and> mi < 60)"

definition denotes_valid :: "py_str \<Rightarrow> py_str \<Rightarrow> bool" where
  "denotes_valid fecha hora =
     (case read_date fecha of
        None \<Rightarrow> False
      | Some (y, m, d) \<Rightarrow>
          (case read_time hora of
             None \<Rightarrow> False
           | Some (h, mi) \<Rightarrow> valid_calendar y m d h mi))"


section \<open>Properties\<close>

subsection \<open>Evaluating the handlers on concrete inputs\<close>

lemma match_digits_numeral:
  "match_digits (numeral n) s =
     (case s of
        [] \<Rightarrow> None
      | c # cs \<Rightarrow> if is_digit c then match_digits (pred_numeral n) cs else None)"
  by (cases s) (simp_all add: numeral_eq_Suc)

lemma digit_char_values:
  "digit_char 0 = CHR ''0''" "digit_char (Suc 0) = CHR ''1''" "digit_char 1 = CHR ''1''"
  "digit_char 2 = CHR ''2''" "digit_char 3 = CHR ''3''" "digit_char 4 = CHR ''4''"
  "digit_char 5 = CHR ''5''" "digit_char 6 = CHR ''6''" "digit_char 7 = CHR ''7''"
  "digit_char 8 = CHR ''8''" "digit_char 9 = CHR ''9''"
  by code_simp+

lemma decimal_ascii:
  "decimal 48 = Some 0" "decimal 49 = Some 1" "decimal 50 = Some 2" "decimal 51 = Some 3"
  "decimal 52 = Some 4" "decimal 53 = Some 5" "decimal 54 = Some 6" "decimal 55 = Some 7"
  "decimal 56 = Some 8" "decimal 57 = Some 9"
  by (simp_all add: decimal_def unicode_zeros_def)

lemma decimal_separators:
  "decimal 45 = None" "decimal 58 = None" "decimal 10 = None"
  by (simp_all add: decimal_def unicode_zeros_def)

lemmas eval_defs = crear_quedada_def crear_quedada_command_def estado_choices_def
  eliminar_quedada_def date_regex_def time_regex_def parse_fecha_hora_def py_int_def
  py_strip_def is_space_def is_digit_def digit_val_def decimal_ascii decimal_separators
  str_def mk_datetime_def days_in_month_def DAYS_IN_MONTH_def is_leap_def match_end_def
  match_digits_numeral generate_meetup_id_def get_meetups_def isoformat_def zfill2_def
  zfill4_def digit_char_values Let_def registry_ids_def registry_ok_def

subsection \<open>Searching the registry\<close>

lemma find_meetup_index_None:
  "find_meetup_index k ms = None \<longleftrightarrow> k \<notin> set (map meetup_id ms)"
  by (induction ms) auto

lemma find_meetup_index_Some:
  "find_meetup_index k ms = Some i \<Longrightarrow>
     i < length ms \<and> meetup_id (ms ! i) = k \<and> k \<notin> set (map meetup_id (take i ms))"
proof (induction ms arbitrary: i)
  case Nil
  then show ?case by simp
next
  case (Cons m ms)
  show ?case
  proof (cases "meetup_id m = k")
    case True
    with Cons.prems show ?thesis by simp
  next
    case False
    with Cons.prems obtain j where j: "find_meetup_index k ms = Some j" "i = Suc j"
      by auto
    from Cons.IH [OF j(1)] False j(2) show ?thesis by simp
  qed
qed

subsection \<open>Identifiers and the invariant\<close>

lemma fold_max_Max: "fold max xs (x::int) = Max (set (x # xs))"
  by (simp only: Max.set_eq_fold)

lemma generate_meetup_id_eq:
  "generate_meetup_id f =
     (if registry_ids f = [] then 1 else Max (set (registry_ids f)) + 1)"
  by (cases "registry_ids f")
     (simp_all add: generate_meetup_id_def registry_ids_def Let_def fold_max_Max del: set_map Max_insert)

lemma generate_meetup_id_greater:
  "k \<in> set (registry_ids f) \<Longrightarrow> k < generate_meetup_id f"
proof -
  assume k: "k \<in> set (registry_ids f)"
  then have ne: "registry_ids f \<noteq> []" by auto
  have "k \<le> Max (set (registry_ids f))" using k by simp
  with ne show ?thesis by (simp add: generate_meetup_id_eq)
qed

lemma generate_meetup_id_positive:
  "list_all (\<lambda>k. 0 < k) (registry_ids f) \<Longrightarrow> 0 < generate_meetup_id f"
proof (cases "registry_ids f")
  case Nil
  then show ?thesis by (simp add: generate_meetup_id_eq)
next
  case (Cons a as)
  assume "list_all (\<lambda>k. 0 < k) (registry_ids f)"
  with Cons have "0 < a" by simp
  moreover have "a < generate_meetup_id f"
    by (rule generate_meetup_id_greater) (simp add: Cons)
  ultimately show ?thesis by simp
qed

lemma get_meetups_Document [simp]: "get_meetups (Document d) = d"
  by (simp add: get_meetups_def)

lemma registry_ids_Document [simp]:
  "registry_ids (Document d) = map meetup_id (meetups d)"
  by (simp add: registry_ids_def get_meetups_def)

lemma registry_ids_Unparsable [simp]: "registry_ids (Unparsable s) = []"
  by (simp add: registry_ids_def get_meetups_def)

lemma crear_quedada_cases:
  assumes "crear_quedada titulo descripcion fecha hora lugar estado w f = (r, f')"
  shows "(f' = f \<and> (date_rejected r \<or> r = CreateFailed))
       \<or> (\<exists>written. w = DumpFails written \<and> f' = Unparsable written \<and> r = CreateFailed)
       \<or> (\<exists>m. w = WriteOk \<and> r = Created m \<and> meetup_id m = generate_meetup_id f
             \<and> title m = titulo \<and> description m = descripcion \<and> location m = lugar
             \<and> status m = estado \<and> participants m = []
             \<and> f' = Document \<lparr>meetups = meetups (get_meetups f) @ [m]\<rparr>)"
  using assms
  by (cases w) (auto simp: crear_quedada_def Let_def split: if_splits sum.splits)

lemma crear_quedada_command_cases:
  assumes "crear_quedada_command titulo descripcion fecha hora lugar estado w f = (r, f')"
  shows "(f' = f \<and> (date_rejected r \<or> r = CreateFailed \<or> r = InvalidChoice))
       \<or> (\<exists>written. w = DumpFails written \<and> f' = Unparsable written \<and> r = CreateFailed)
       \<or> (\<exists>m. w = WriteOk \<and> r = Created m \<and> meetup_id m = generate_meetup_id f
             \<and> status m = estado \<and> estado \<in> set estado_choices
             \<and> f' = Document \<lparr>meetups = meetups (get_meetups f) @ [m]\<rparr>)"
proof (cases "estado \<in> set estado_choices")
  case True
  with assms have "crear_quedada titulo descripcion fecha hora lugar estado w f = (r, f')"
    by (simp add: crear_quedada_command_def)
  from crear_quedada_cases [OF this] True show ?thesis by blast
next
  case False
  with assms show ?thesis by (simp add: crear_quedada_command_def)
qed

lemma eliminar_quedada_cases:
  assumes "eliminar_quedada manage_messages id_quedada w f = (r, f')"
  shows "(f' = f \<and> (r = NoPermission \<or> r = NotFound id_quedada \<or> r = DeleteFailed))
       \<or> (\<exists>written. w = DumpFails written \<and> f' = Unparsable written \<and> r = DeleteFailed)
       \<or> (\<exists>i. manage_messages \<and> w = WriteOk
             \<and> find_meetup_index id_quedada (meetups (get_meetups f)) = Some i
             \<and> r = Deleted (meetups (get_meetups f) ! i)
             \<and> f' = Document \<lparr>meetups = take i (meetups (get_meetups f))
                                        @ drop (Suc i) (meetups (get_meetups f))\<rparr>)"
  using assms
  by (cases w) (auto simp: eliminar_quedada_def Let_def split: if_splits option.splits)

lemma distinct_remove_nth:
  "distinct (map g xs) \<Longrightarrow> distinct (map g (take i xs @ drop (Suc i) xs))"
proof (induction xs arbitrary: i)
  case Nil
  then show ?case by simp
next
  case (Cons x xs)
  show ?case
  proof (cases i)
    case 0
    with Cons.prems show ?thesis by simp
  next
    case (Suc j)
    from Cons.prems have "distinct (map g xs)" and x: "g x \<notin> g ` set xs" by simp_all
    from Cons.IH [OF this(1)] have "distinct (map g (take j xs @ drop (Suc j) xs))" .
    moreover have "g x \<notin> g ` set (take j xs @ drop (Suc j) xs)"
      using x by (auto dest: in_set_takeD in_set_dropD)
    ultimately show ?thesis using Suc by auto
  qed
qed

lemma step_registry_ok:
  assumes "registry_ok f" and "step c f = (r, f')"
  shows "registry_ok f'"
proof (cases c)
  case (Pair cmd w)
  show ?thesis
  proof (cases cmd)
    case (Crear titulo descripcion fecha hora lugar estado)
    with Pair assms(2)
    have "crear_quedada_command titulo descripcion fecha hora lugar estado w f = (r, f')"
      by simp
    from crear_quedada_command_cases [OF this] show ?thesis
    proof (elim disjE exE conjE)
      fix m
      assume m: "meetup_id m = generate_meetup_id f"
        and f': "f' = Document \<lparr>meetups = meetups (get_meetups f) @ [m]\<rparr>"
      have ids: "registry_ids f' = registry_ids f @ [generate_meetup_id f]"
        by (simp add: f' m) (simp add: registry_ids_def)
      have "generate_meetup_id f \<notin> set (registry_ids f)"
        using generate_meetup_id_greater [of "generate_meetup_id f" f] by auto
      moreover have "0 < generate_meetup_id f"
        using assms(1) by (simp add: registry_ok_def generate_meetup_id_positive)
      ultimately show ?thesis using assms(1) by (simp add: registry_ok_def ids)
    qed (use assms(1) in \<open>simp_all add: registry_ok_def\<close>)
  next
    case (Eliminar manage_messages id_quedada)
    with Pair assms(2)
    have "eliminar_quedada manage_messages id_quedada w f = (r, f')" by simp
    from eliminar_quedada_cases [OF this] show ?thesis
    proof (elim disjE exE conjE)
      fix i
      assume f': "f' = Document \<lparr>meetups = take i (meetups (get_meetups f))
                                        @ drop (Suc i) (meetups (get_meetups f))\<rparr>"
      have "distinct (map meetup_id (meetups (get_meetups f)))"
        and pos: "list_all (\<lambda>k. 0 < k) (map meetup_id (meetups (get_meetups f)))"
        using assms(1) by (simp_all add: registry_ok_def registry_ids_def)
      then have "distinct (registry_ids f')"
        unfolding f' registry_ids_Document by (simp only: distinct_remove_nth meetups_data.simps)
      moreover have "list_all (\<lambda>k. 0 < k) (registry_ids f')"
        using pos unfolding f' registry_ids_Document
        by (auto simp: list_all_iff dest: in_set_takeD in_set_dropD)
      ultimately show ?thesis by (simp add: registry_ok_def)
    qed (use assms(1) in \<open>simp_all add: registry_ok_def\<close>)
  qed
qed

lemma run_registry_ok:
  "registry_ok f \<Longrightarrow> registry_ok (snd (run cs f))"
proof (induction cs arbitrary: f)
  case Nil
  then show ?case by simp
next
  case (Cons c cs)
  obtain r f' where s: "step c f = (r, f')" by (cases "step c f")
  from step_registry_ok [OF Cons.prems s] have "registry_ok f'" .
  from Cons.IH [OF this] s show ?case by (simp add: split_beta)
qed

lemma step_create_only:
  assumes "create_only c" and "step c f = (r, f')"
  shows "(f' = f \<and> created_ids [r] = [])
       \<or> (created_ids [r] = [generate_meetup_id f]
            \<and> registry_ids f' = registry_ids f @ [generate_meetup_id f])"
proof (cases c)
  case (Pair cmd w)
  show ?thesis
  proof (cases cmd)
    case (Crear titulo descripcion fecha hora lugar estado)
    with Pair assms(2)
    have "crear_quedada_command titulo descripcion fecha hora lugar estado w f = (r, f')"
      by simp
    from crear_quedada_command_cases [OF this] show ?thesis
    proof (elim disjE exE conjE)
      fix m
      assume "meetup_id m = generate_meetup_id f" "r = Created m"
        "f' = Document \<lparr>meetups = meetups (get_meetups f) @ [m]\<rparr>"
      then show ?thesis by (simp add: registry_ids_def)
    next
      fix written assume "w = DumpFails written"
      with assms(1) Pair Crear show ?thesis by simp
    qed (cases r; simp)+
  next
    case (Eliminar manage_messages id_quedada)
    with Pair assms(1) show ?thesis by simp
  qed
qed

lemma created_ids_Cons: "created_ids (r # rs) = created_ids [r] @ created_ids rs"
  by (cases r) simp_all

lemma run_create_only:
  "list_all create_only cs \<Longrightarrow>
     sorted_wrt (<) (created_ids (fst (run cs f)))
     \<and> (\<forall>k \<in> set (created_ids (fst (run cs f))). \<forall>j \<in> set (registry_ids f). j < k)"
proof (induction cs arbitrary: f)
  case Nil
  then show ?case by simp
next
  case (Cons c cs)
  obtain r f' where s: "step c f = (r, f')" by (cases "step c f")
  from Cons.prems have c: "create_only c" and cs: "list_all create_only cs" by simp_all
  note IH = Cons.IH [OF cs, of f']
  have run: "created_ids (fst (run (c # cs) f)) = created_ids [r] @ created_ids (fst (run cs f'))"
    using s created_ids_Cons [of r "fst (run cs f')"] by (simp add: split_beta)
  from step_create_only [OF c s] show ?case
  proof (elim disjE conjE)
    assume "f' = f" "created_ids [r] = []"
    with IH run show ?thesis by simp
  next
    assume r: "created_ids [r] = [generate_meetup_id f]"
      and ids: "registry_ids f' = registry_ids f @ [generate_meetup_id f]"
    have "\<forall>j \<in> set (registry_ids f). j < generate_meetup_id f"
      by (simp add: generate_meetup_id_greater)
    with IH show ?thesis unfolding run r ids by auto
  qed
qed

text \<open>
  C1 (counterexample). The claim says that over any sequence of creates and deletes the
  ids returned by the creates are strictly increasing. From the empty registry, a create,
  the delete of id 1 and another create return the id 1 twice.
\<close>

theorem created_ids_repeat_counterexample:
  "created_ids (fst (run
     [(Crear ''Picnic'' ''Bring food'' (str ''2024-06-01'') (str ''18:00'') ''Park'' ''activo'', WriteOk),
      (Eliminar True 1, WriteOk),
      (Crear ''Cena'' ''Tapas'' (str ''2024-06-02'') (str ''21:00'') ''Bar'' ''pendiente'', WriteOk)]
     (Document \<lparr>meetups = []\<rparr>))) = [1, 1]"
  by (simp add: eval_defs)

text \<open>
  C1 (as amended). In every state of the file reached from the empty registry by creates
  and deletes executed one at a time, whatever the outcome of each write, the ids of the
  loaded registry are pairwise distinct and positive. From any state of the file, the
  ids returned by a sequence of creates with no delete between them, and no write that
  fails after the file was truncated, are strictly increasing, and each is greater than
  every id the registry held at the start of the sequence.
\<close>

theorem ids_distinct_positive_increasing:
  "registry_ok (snd (run cs (Document \<lparr>meetups = []\<rparr>)))
   \<and> (list_all create_only cs' \<longrightarrow>
        sorted_wrt (<) (created_ids (fst (run cs' f)))
        \<and> list_all (\<lambda>k. list_all (\<lambda>j. j < k) (registry_ids f)) (created_ids (fst (run cs' f))))"
proof -
  have "registry_ok (Document \<lparr>meetups = []\<rparr>)" by (simp add: registry_ok_def)
  then have "registry_ok (snd (run cs (Document \<lparr>meetups = []\<rparr>)))" by (rule run_registry_ok)
  moreover have "list_all create_only cs' \<longrightarrow>
        sorted_wrt (<) (created_ids (fst (run cs' f)))
        \<and> list_all (\<lambda>k. list_all (\<lambda>j. j < k) (registry_ids f)) (created_ids (fst (run cs' f)))"
    using run_create_only [of cs' f] by (simp add: list_all_iff)
  ultimately show ?thesis by simp
qed

theorem ids_distinct_positive_increasing_witness:
  "registry_ids (snd (run
     [(Crear ''Picnic'' ''Bring food'' (str ''2024-06-01'') (str ''18:00'') ''Park'' ''activo'', WriteOk),
      (Crear ''Cena'' ''Tapas'' (str ''2024-06-02'') (str ''21:00'') ''Bar'' ''pendiente'', WriteOk),
      (Eliminar True 1, WriteOk)]
     (Document \<lparr>meetups = []\<rparr>))) = [2]
   \<and> registry_ok (snd (run
     [(Crear ''Picnic'' ''Bring food'' (str ''2024-06-01'') (str ''18:00'') ''Park'' ''activo'', WriteOk),
      (Crear ''Cena'' ''Tapas'' (str ''2024-06-02'') (str ''21:00'') ''Bar'' ''pendiente'', WriteOk),
      (Eliminar True 1, WriteOk)]
     (Document \<lparr>meetups = []\<rparr>)))
   \<and> list_all create_only
     [(Crear ''Picnic'' ''Bring food'' (str ''2024-06-01'') (str ''18:00'') ''Park'' ''activo'', WriteOk),
      (Crear ''Cena'' ''Tapas'' (str ''2024-06-02'') (str ''21:00'') ''Bar'' ''pendiente'', OpenFails),
      (Crear ''Cine'' ''Estreno'' (str ''2024-06-03'') (str ''20:00'') ''Centro'' ''activo'', WriteOk)]
   \<and> created_ids (fst (run
     [(Crear ''Picnic'' ''Bring food'' (str ''2024-06-01'') (str ''18:00'') ''Park'' ''activo'', WriteOk),
      (Crear ''Cena'' ''Tapas'' (str ''2024-06-02'') (str ''21:00'') ''Bar'' ''pendiente'', OpenFails),
      (Crear ''Cine'' ''Estreno'' (str ''2024-06-03'') (str ''20:00'') ''Centro'' ''activo'', WriteOk)]
     (Document \<lparr>meetups = [\<lparr>meetup_id = 4, title = ''Paseo'', description = ''Rio'',
         date = ''2024-05-01T10:00:00+00:00'', location = ''Puente'', status = ''activo'',
         participants = []\<rparr>]\<rparr>))) = [5, 6]
   \<and> sorted_wrt (<) (created_ids (fst (run
     [(Crear ''Picnic'' ''Bring food'' (str ''2024-06-01'') (str ''18:00'') ''Park'' ''activo'', WriteOk),
      (Crear ''Cena'' ''Tapas'' (str ''2024-06-02'') (str ''21:00'') ''Bar'' ''pendiente'', OpenFails),
      (Crear ''Cine'' ''Estreno'' (str ''2024-06-03'') (str ''20:00'') ''Centro'' ''activo'', WriteOk)]
     (Document \<lparr>meetups = [\<lparr>meetup_id = 4, title = ''Paseo'', description = ''Rio'',
         date = ''2024-05-01T10:00:00+00:00'', location = ''Puente'', status = ''activo'',
         participants = []\<rparr>]\<rparr>))))"
proof -
  have a: "registry_ids (snd (run
     [(Crear ''Picnic'' ''Bring food'' (str ''2024-06-01'') (str ''18:00'') ''Park'' ''activo'', WriteOk),
      (Crear ''Cena'' ''Tapas'' (str ''2024-06-02'') (str ''21:00'') ''Bar'' ''pendiente'', WriteOk),
      (Eliminar True 1, WriteOk)]
     (Document \<lparr>meetups = []\<rparr>))) = [2]"
    by (simp add: eval_defs)
  have b: "list_all create_only
     [(Crear ''Picnic'' ''Bring food'' (str ''2024-06-01'') (str ''18:00'') ''Park'' ''activo'', WriteOk),
      (Crear ''Cena'' ''Tapas'' (str ''2024-06-02'') (str ''21:00'') ''Bar'' ''pendiente'', OpenFails),
      (Crear ''Cine'' ''Estreno'' (str ''2024-06-03'') (str ''20:00'') ''Centro'' ''activo'', WriteOk)]"
    by simp
  have c: "created_ids (fst (run
     [(Crear ''Picnic'' ''Bring food'' (str ''2024-06-01'') (str ''18:00'') ''Park'' ''activo'', WriteOk),
      (Crear ''Cena'' ''Tapas'' (str ''2024-06-02'') (str ''21:00'') ''Bar'' ''pendiente'', OpenFails),
      (Crear ''Cine'' ''Estreno'' (str ''2024-06-03'') (str ''20:00'') ''Centro'' ''activo'', WriteOk)]
     (Document \<lparr>meetups = [\<lparr>meetup_id = 4, title = ''Paseo'', description = ''Rio'',
         date = ''2024-05-01T10:00:00+00:00'', location = ''Puente'', status = ''activo'',
         participants = []\<rparr>]\<rparr>))) = [5, 6]"
    by (simp add: eval_defs)
  show ?thesis
    using a b c
      ids_distinct_positive_increasing [of
        "[(Crear ''Picnic'' ''Bring food'' (str ''2024-06-01'') (str ''18:00'') ''Park'' ''activo'', WriteOk),
      (Crear ''Cena'' ''Tapas'' (str ''2024-06-02'') (str ''21:00'') ''Bar'' ''pendiente'', WriteOk),
      (Eliminar True 1, WriteOk)]"
        "[(Crear ''Picnic'' ''Bring food'' (str ''2024-06-01'') (str ''18:00'') ''Park'' ''activo'', WriteOk),
      (Crear ''Cena'' ''Tapas'' (str ''2024-06-02'') (str ''21:00'') ''Bar'' ''pendiente'', OpenFails),
      (Crear ''Cine'' ''Estreno'' (str ''2024-06-03'') (str ''20:00'') ''Centro'' ''activo'', WriteOk)]"
        "Document \<lparr>meetups = [\<lparr>meetup_id = 4, title = ''Paseo'', description = ''Rio'',
         date = ''2024-05-01T10:00:00+00:00'', location = ''Puente'', status = ''activo'',
         participants = []\<rparr>]\<rparr>"]
    by (simp only: simp_thms)
qed

lemma remove_nth_filter:
  "distinct (map g xs) \<Longrightarrow> i < length xs \<Longrightarrow>
     take i xs @ drop (Suc i) xs = filter (\<lambda>r. g r \<noteq> g (xs ! i)) xs"
proof (induction xs arbitrary: i)
  case Nil
  then show ?case by simp
next
  case (Cons x xs)
  from Cons.prems(1) have d: "distinct (map g xs)" and x: "g x \<notin> g ` set xs" by simp_all
  show ?case
  proof (cases i)
    case 0
    have "filter (\<lambda>r. g r \<noteq> g x) xs = xs"
      using x by (intro filter_True) (metis imageI)
    with 0 show ?thesis by simp
  next
    case (Suc j)
    with Cons.prems(2) have j: "j < length xs" by simp
    then have "g (xs ! j) \<in> g ` set xs" by simp
    with x have "g x \<noteq> g (xs ! j)" by metis
    with Cons.IH [OF d j] Suc show ?thesis by simp
  qed
qed

lemma set_remove_nth:
  "distinct xs \<Longrightarrow> i < length xs \<Longrightarrow> set (take i xs @ drop (Suc i) xs) = set xs - {xs ! i}"
  using remove_nth_filter [of "\<lambda>x. x" xs i] by auto

lemma eliminar_quedada_found:
  assumes "find_meetup_index k (meetups (get_meetups f)) = Some i"
  shows "eliminar_quedada True k WriteOk f
           = (Deleted (meetups (get_meetups f) ! i),
              Document \<lparr>meetups = take i (meetups (get_meetups f))
                                   @ drop (Suc i) (meetups (get_meetups f))\<rparr>)"
  using assms by (simp add: eliminar_quedada_def Let_def)

lemma generate_meetup_id_after_delete_max:
  assumes ok: "registry_ok f"
    and ne: "registry_ids f \<noteq> []"
    and k: "k = Max (set (registry_ids f))"
    and del: "eliminar_quedada True k WriteOk f = (r, f')"
  shows "generate_meetup_id f' \<le> k
       \<and> (generate_meetup_id f' = k \<longleftrightarrow> k = 1 \<or> k - 1 \<in> set (registry_ids f))"
proof -
  let ?ms = "meetups (get_meetups f)"
  let ?ids = "registry_ids f"
  from ok have d: "distinct ?ids" and pos: "\<forall>j \<in> set ?ids. 0 < j"
    by (simp_all add: registry_ok_def list_all_iff)
  from ne k have kin: "k \<in> set ?ids" using Max_in [of "set ?ids"] by simp
  have le: "\<forall>j \<in> set ?ids. j \<le> k" using k by simp
  from kin obtain i where i: "find_meetup_index k ?ms = Some i"
    using find_meetup_index_None [of k ?ms]
    by (cases "find_meetup_index k ?ms") (simp_all add: registry_ids_def)
  from eliminar_quedada_found [OF i] del
  have f': "f' = Document \<lparr>meetups = take i ?ms @ drop (Suc i) ?ms\<rparr>" by simp
  from find_meetup_index_Some [OF i] have len: "i < length ?ms" and idi: "meetup_id (?ms ! i) = k"
    by simp_all
  have ids': "registry_ids f' = take i ?ids @ drop (Suc i) ?ids"
    by (simp add: f' registry_ids_def take_map drop_map)
  have "?ids ! i = k" using len idi by (simp add: registry_ids_def)
  moreover have "i < length ?ids" using len by (simp add: registry_ids_def)
  ultimately have S: "set (registry_ids f') = set ?ids - {k}"
    using set_remove_nth [OF d, of i] ids' by simp
  show ?thesis
  proof (cases "registry_ids f' = []")
    case True
    with S kin have "set ?ids = {k}" by auto
    moreover from pos kin have "0 < k" by simp
    ultimately show ?thesis using True by (auto simp: generate_meetup_id_eq)
  next
    case False
    let ?S = "set (registry_ids f')"
    have fin: "finite ?S" and neS: "?S \<noteq> {}" using False by simp_all
    have lt: "\<forall>j \<in> ?S. j < k" using S le by fastforce
    have gen: "generate_meetup_id f' = Max ?S + 1" using False by (simp add: generate_meetup_id_eq)
    have "Max ?S \<in> ?S" using fin neS by (rule Max_in)
    with lt have Mlt: "Max ?S < k" by blast
    have "Max ?S = k - 1 \<longleftrightarrow> k - 1 \<in> ?S"
    proof
      assume "Max ?S = k - 1" with \<open>Max ?S \<in> ?S\<close> show "k - 1 \<in> ?S" by simp
    next
      assume m: "k - 1 \<in> ?S"
      then have "k - 1 \<le> Max ?S" using fin by simp
      with Mlt show "Max ?S = k - 1" by simp
    qed
    moreover have "k - 1 \<in> ?S \<longleftrightarrow> k - 1 \<in> set ?ids" using S by auto
    moreover have "k \<noteq> 1"
    proof
      assume "k = 1"
      from False obtain j where "j \<in> ?S" by (cases "registry_ids f'") auto
      with lt S pos have "j < k" "0 < j" by auto
      with \<open>k = 1\<close> show False by simp
    qed
    ultimately show ?thesis using gen Mlt by auto
  qed
qed

text \<open>
  C2 (counterexample). The claim says that a deleted id below the current maximum is
  never assigned again, and that a deleted id equal to the current maximum is assigned
  again by the next create. After three creates the ids are 1, 2 and 3; id 2 is deleted
  while 3 is the maximum, then id 3, the maximum, is deleted; the next create returns
  2: the id deleted below the maximum, and not the maximum that was just deleted.
\<close>

theorem deleted_id_reassigned_counterexample:
  "created_ids (fst (run
     [(Crear ''Picnic'' ''Bring food'' (str ''2024-06-01'') (str ''18:00'') ''Park'' ''activo'', WriteOk),
      (Crear ''Cena'' ''Tapas'' (str ''2024-06-02'') (str ''21:00'') ''Bar'' ''pendiente'', WriteOk),
      (Crear ''Cine'' ''Estreno'' (str ''2024-06-03'') (str ''20:00'') ''Centro'' ''activo'', WriteOk)]
     (Document \<lparr>meetups = []\<rparr>))) = [1, 2, 3]
   \<and> registry_ids (snd (run
     [(Crear ''Picnic'' ''Bring food'' (str ''2024-06-01'') (str ''18:00'') ''Park'' ''activo'', WriteOk),
      (Crear ''Cena'' ''Tapas'' (str ''2024-06-02'') (str ''21:00'') ''Bar'' ''pendiente'', WriteOk),
      (Crear ''Cine'' ''Estreno'' (str ''2024-06-03'') (str ''20:00'') ''Centro'' ''activo'', WriteOk),
      (Eliminar True 2, WriteOk)]
     (Document \<lparr>meetups = []\<rparr>))) = [1, 3]
   \<and> registry_ids (snd (run
     [(Crear ''Picnic'' ''Bring food'' (str ''2024-06-01'') (str ''18:00'') ''Park'' ''activo'', WriteOk),
      (Crear ''Cena'' ''Tapas'' (str ''2024-06-02'') (str ''21:00'') ''Bar'' ''pendiente'', WriteOk),
      (Crear ''Cine'' ''Estreno'' (str ''2024-06-03'') (str ''20:00'') ''Centro'' ''activo'', WriteOk),
      (Eliminar True 2, WriteOk),
      (Eliminar True 3, WriteOk)]
     (Document \<lparr>meetups = []\<rparr>))) = [1]
   \<and> created_ids (fst (run
     [(Crear ''Picnic'' ''Bring food'' (str ''2024-06-01'') (str ''18:00'') ''Park'' ''activo'', WriteOk),
      (Crear ''Cena'' ''Tapas'' (str ''2024-06-02'') (str ''21:00'') ''Bar'' ''pendiente'', WriteOk),
      (Crear ''Cine'' ''Estreno'' (str ''2024-06-03'') (str ''20:00'') ''Centro'' ''activo'', WriteOk),
      (Eliminar True 2, WriteOk),
      (Eliminar True 3, WriteOk),
      (Crear ''Paseo'' ''Rio'' (str ''2024-06-04'') (str ''10:00'') ''Puente'' ''activo'', WriteOk)]
     (Document \<lparr>meetups = []\<rparr>))) = [1, 2, 3, 2]"
  by (simp add: eval_defs)

text \<open>
  C2 (as amended). For every file, the id of a newly created meetup is the one
  \<^verbatim>\<open>generate_meetup_id\<close> computes from the loaded registry: the maximum of its ids
  plus one, and 1 when it is empty. It is therefore greater than every id in the
  registry, so that a deleted id is not assigned again while the registry holds an id
  at least as large. After the meetup with the maximum id \<open>k\<close> is deleted from a registry
  of distinct positive ids, the next id is the maximum of the remaining ids plus one: it
  is at most \<open>k\<close>, and it is \<open>k\<close> exactly when \<open>k - 1\<close> was in the registry or \<open>k\<close> is 1.
\<close>

theorem generate_meetup_id_max_plus_one:
  "(crear_quedada titulo descripcion fecha hora lugar estado w f = (Created m, f1) \<longrightarrow>
      meetup_id m = generate_meetup_id f)
   \<and> generate_meetup_id f
       = (if registry_ids f = [] then 1 else Max (set (registry_ids f)) + 1)
   \<and> list_all (\<lambda>j. j < generate_meetup_id f) (registry_ids f)
   \<and> (registry_ok f \<and> registry_ids f \<noteq> [] \<and> k = Max (set (registry_ids f))
       \<and> eliminar_quedada True k WriteOk f = (r, f') \<longrightarrow>
       generate_meetup_id f' \<le> k
       \<and> (generate_meetup_id f' = k \<longleftrightarrow> k = 1 \<or> k - 1 \<in> set (registry_ids f)))"
proof -
  have "crear_quedada titulo descripcion fecha hora lugar estado w f = (Created m, f1) \<longrightarrow>
      meetup_id m = generate_meetup_id f"
    using crear_quedada_cases [of titulo descripcion fecha hora lugar estado w f "Created m" f1]
    by auto
  moreover have "list_all (\<lambda>j. j < generate_meetup_id f) (registry_ids f)"
    by (simp add: list_all_iff generate_meetup_id_greater)
  ultimately show ?thesis
    using generate_meetup_id_eq [of f] generate_meetup_id_after_delete_max [of f k r f']
    by blast
qed

theorem generate_meetup_id_max_plus_one_witness:
  "crear_quedada ''Cine'' ''Estreno'' (str ''2024-06-03'') (str ''20:00'') ''Centro'' ''activo'' WriteOk
      (Document \<lparr>meetups = [\<lparr>meetup_id = 1, title = ''Picnic'', description = ''Bring food'',
         date = ''2024-06-01T18:00:00+00:00'', location = ''Park'', status = ''activo'',
         participants = []\<rparr>,
       \<lparr>meetup_id = 2, title = ''Cena'', description = ''Tapas'',
         date = ''2024-06-02T21:00:00+00:00'', location = ''Bar'', status = ''pendiente'',
         participants = []\<rparr>]\<rparr>)
     = (Created \<lparr>meetup_id = 3, title = ''Cine'', description = ''Estreno'',
         date = ''2024-06-03T20:00:00+00:00'', location = ''Centro'', status = ''activo'',
         participants = []\<rparr>,
        (Document \<lparr>meetups = [\<lparr>meetup_id = 1, title = ''Picnic'', description = ''Bring food'',
         date = ''2024-06-01T18:00:00+00:00'', location = ''Park'', status = ''activo'',
         participants = []\<rparr>,
       \<lparr>meetup_id = 2, title = ''Cena'', description = ''Tapas'',
         date = ''2024-06-02T21:00:00+00:00'', location = ''Bar'', status = ''pendiente'',
         participants = []\<rparr>,
       \<lparr>meetup_id = 3, title = ''Cine'', description = ''Estreno'',
         date = ''2024-06-03T20:00:00+00:00'', location = ''Centro'', status = ''activo'',
         participants = []\<rparr>]\<rparr>))
   \<and> generate_meetup_id (Document \<lparr>meetups = [\<lparr>meetup_id = 1, title = ''Picnic'', description = ''Bring food'',
         date = ''2024-06-01T18:00:00+00:00'', location = ''Park'', status = ''activo'',
         participants = []\<rparr>,
       \<lparr>meetup_id = 2, title = ''Cena'', description = ''Tapas'',
         date = ''2024-06-02T21:00:00+00:00'', location = ''Bar'', status = ''pendiente'',
         participants = []\<rparr>]\<rparr>) = 3
   \<and> registry_ok (Document \<lparr>meetups = [\<lparr>meetup_id = 1, title = ''Picnic'', description = ''Bring food'',
         date = ''2024-06-01T18:00:00+00:00'', location = ''Park'', status = ''activo'',
         participants = []\<rparr>,
       \<lparr>meetup_id = 2, title = ''Cena'', description = ''Tapas'',
         date = ''2024-06-02T21:00:00+00:00'', location = ''Bar'', status = ''pendiente'',
         participants = []\<rparr>]\<rparr>)
   \<and> registry_ids (Document \<lparr>meetups = [\<lparr>meetup_id = 1, title = ''Picnic'', description = ''Bring food'',
         date = ''2024-06-01T18:00:00+00:00'', location = ''Park'', status = ''activo'',
         participants = []\<rparr>,
       \<lparr>meetup_id = 2, title = ''Cena'', description = ''Tapas'',
         date = ''2024-06-02T21:00:00+00:00'', location = ''Bar'', status = ''pendiente'',
         participants = []\<rparr>]\<rparr>) \<noteq> []
   \<and> 2 = Max (set (registry_ids (Document \<lparr>meetups = [\<lparr>meetup_id = 1, title = ''Picnic'', description = ''Bring food'',
         date = ''2024-06-01T18:00:00+00:00'', location = ''Park'', status = ''activo'',
         participants = []\<rparr>,
       \<lparr>meetup_id = 2, title = ''Cena'', description = ''Tapas'',
         date = ''2024-06-02T21:00:00+00:00'', location = ''Bar'', status = ''pendiente'',
         participants = []\<rparr>]\<rparr>)))
   \<and> eliminar_quedada True 2 WriteOk (Document \<lparr>meetups = [\<lparr>meetup_id = 1, title = ''Picnic'', description = ''Bring food'',
         date = ''2024-06-01T18:00:00+00:00'', location = ''Park'', status = ''activo'',
         participants = []\<rparr>,
       \<lparr>meetup_id = 2, title = ''Cena'', description = ''Tapas'',
         date = ''2024-06-02T21:00:00+00:00'', location = ''Bar'', status = ''pendiente'',
         participants = []\<rparr>]\<rparr>)
     = (Deleted \<lparr>meetup_id = 2, title = ''Cena'', description = ''Tapas'',
         date = ''2024-06-02T21:00:00+00:00'', location = ''Bar'', status = ''pendiente'',
         participants = []\<rparr>,
        (Document \<lparr>meetups = [\<lparr>meetup_id = 1, title = ''Picnic'', description = ''Bring food'',
         date = ''2024-06-01T18:00:00+00:00'', location = ''Park'', status = ''activo'',
         participants = []\<rparr>]\<rparr>))
   \<and> generate_meetup_id (Document \<lparr>meetups = [\<lparr>meetup_id = 1, title = ''Picnic'', description = ''Bring food'',
         date = ''2024-06-01T18:00:00+00:00'', location = ''Park'', status = ''activo'',
         participants = []\<rparr>]\<rparr>) = 2"
  using generate_meetup_id_max_plus_one [of "''Cine''" "''Estreno''" "str ''2024-06-03''" "str ''20:00''" "''Centro''" "''activo''" WriteOk "(Document \<lparr>meetups = [\<lparr>meetup_id = 1, title = ''Picnic'', description = ''Bring food'',
         date = ''2024-06-01T18:00:00+00:00'', location = ''Park'', status = ''activo'',
         participants = []\<rparr>,
       \<lparr>meetup_id = 2, title = ''Cena'', description = ''Tapas'',
         date = ''2024-06-02T21:00:00+00:00'', location = ''Bar'', status = ''pendiente'',
         participants = []\<rparr>]\<rparr>)"
      "\<lparr>meetup_id = 3, title = ''Cine'', description = ''Estreno'',
         date = ''2024-06-03T20:00:00+00:00'', location = ''Centro'', status = ''activo'',
         participants = []\<rparr>"
      "(Document \<lparr>meetups = [\<lparr>meetup_id = 1, title = ''Picnic'', description = ''Bring food'',
         date = ''2024-06-01T18:00:00+00:00'', location = ''Park'', status = ''activo'',
         participants = []\<rparr>,
       \<lparr>meetup_id = 2, title = ''Cena'', description = ''Tapas'',
         date = ''2024-06-02T21:00:00+00:00'', location = ''Bar'', status = ''pendiente'',
         participants = []\<rparr>,
       \<lparr>meetup_id = 3, title = ''Cine'', description = ''Estreno'',
         date = ''2024-06-03T20:00:00+00:00'', location = ''Centro'', status = ''activo'',
         participants = []\<rparr>]\<rparr>)"
      2 "Deleted \<lparr>meetup_id = 2, title = ''Cena'', description = ''Tapas'',
         date = ''2024-06-02T21:00:00+00:00'', location = ''Bar'', status = ''pendiente'',
         participants = []\<rparr>"
      "(Document \<lparr>meetups = [\<lparr>meetup_id = 1, title = ''Picnic'', description = ''Bring food'',
         date = ''2024-06-01T18:00:00+00:00'', location = ''Park'', status = ''activo'',
         participants = []\<rparr>]\<rparr>)"]
  by (simp add: eval_defs)

subsection \<open>Loading a file that does not parse\<close>

text \<open>
  C3 (counterexample). The claim says that loading a store whose contents cannot be
  parsed fails with an error and never yields an empty registry in their place. For the
  file holding the single character \<^verbatim>\<open>{\<close>, \<^verbatim>\<open>json.load\<close> raises, and
  \<^verbatim>\<open>get_meetups\<close> returns the empty registry.
\<close>

theorem get_meetups_unparsable_counterexample:
  "json_load (Unparsable ''{'') = Inl JSONDecodeError
   \<and> get_meetups (Unparsable ''{'') = \<lparr>meetups = []\<rparr>"
  by (simp add: get_meetups_def)

text \<open>
  C3 (as amended). For every store whose contents cannot be parsed, the load catches
  the error and returns the empty registry; nothing is surfaced to the caller: the list
  command answers that there are no meetups, and the next id to be assigned is 1.
\<close>

theorem get_meetups_unparsable:
  "get_meetups (Unparsable s) = \<lparr>meetups = []\<rparr>
   \<and> quedadas fromisoformat (Unparsable s) = Inr NoMeetups
   \<and> generate_meetup_id (Unparsable s) = 1"
  by (simp add: get_meetups_def quedadas_def generate_meetup_id_def)

subsection \<open>Listing\<close>

text \<open>
  The list command raises, and sends nothing, when the registry holds more than 25
  meetups or a meetup whose date \<^verbatim>\<open>fromisoformat\<close> does not accept.
\<close>

lemma add_meetups_above_25:
  "n \<le> 25 \<Longrightarrow> 25 < n + length ms \<Longrightarrow> add_meetups fromisoformat n ms = Some ValueError"
  by (induction ms arbitrary: n) auto

lemma quedadas_raises_above_25:
  assumes "25 < length (meetups (get_meetups f))"
  shows "quedadas fromisoformat f = Inl ValueError"
proof -
  from assms have "meetups (get_meetups f) \<noteq> []" by auto
  with add_meetups_above_25 [of 0 "meetups (get_meetups f)" fromisoformat] assms
  show ?thesis by (simp add: quedadas_def)
qed

lemma quedadas_raises_on_date:
  assumes "m \<in> set (meetups (get_meetups f))" and "\<not> fromisoformat (replace_Z (date m))"
  shows "quedadas fromisoformat f = Inl ValueError"
proof -
  have "m \<in> set ms \<Longrightarrow> add_meetups fromisoformat n ms = Some ValueError" for ms n
    using assms(2) by (induction ms arbitrary: n) auto
  from this [OF assms(1), of 0] assms(1) show ?thesis
    by (auto simp: quedadas_def Let_def)
qed

subsection \<open>Deleting\<close>

text \<open>
  C10. A delete by a caller without the permission \<^verbatim>\<open>manage_messages\<close> is refused
  before anything is read: whatever the id and whatever the file holds (so also for an
  id that no meetup has), the answer is the permission refusal and the file is the one
  it was.
\<close>

theorem eliminar_quedada_unauthorized:
  "eliminar_quedada False id_quedada w f = (NoPermission, f)"
  by (simp add: eliminar_quedada_def)

text \<open>
  C7. For every file and every id that no meetup of the loaded registry has, the delete
  of a permitted caller answers that the id was not found, and writes nothing: the file
  is returned as it was.
\<close>

theorem eliminar_quedada_not_found:
  assumes "id_quedada \<notin> set (registry_ids f)"
  shows "eliminar_quedada True id_quedada w f = (NotFound id_quedada, f)"
  using assms
  by (simp add: eliminar_quedada_def registry_ids_def find_meetup_index_None [symmetric]
      del: set_map)

theorem eliminar_quedada_not_found_witness:
  "2 \<notin> set (registry_ids (Document \<lparr>meetups =
       [\<lparr>meetup_id = 1, title = ''Picnic'', description = ''Bring food'',
         date = ''2024-06-01T18:00:00+00:00'', location = ''Park'', status = ''activo'',
         participants = []\<rparr>]\<rparr>))
   \<and> eliminar_quedada True 2 WriteOk (Document \<lparr>meetups =
       [\<lparr>meetup_id = 1, title = ''Picnic'', description = ''Bring food'',
         date = ''2024-06-01T18:00:00+00:00'', location = ''Park'', status = ''activo'',
         participants = []\<rparr>]\<rparr>)
     = (NotFound 2, Document \<lparr>meetups =
       [\<lparr>meetup_id = 1, title = ''Picnic'', description = ''Bring food'',
         date = ''2024-06-01T18:00:00+00:00'', location = ''Park'', status = ''activo'',
         participants = []\<rparr>]\<rparr>)"
  using eliminar_quedada_not_found [of 2 "Document \<lparr>meetups =
       [\<lparr>meetup_id = 1, title = ''Picnic'', description = ''Bring food'',
         date = ''2024-06-01T18:00:00+00:00'', location = ''Park'', status = ''activo'',
         participants = []\<rparr>]\<rparr>" WriteOk]
  by (simp add: registry_ids_def get_meetups_def)

text \<open>
  C8. For every file whose loaded registry \<open>ms\<close> has a meetup with the given id, the
  delete of a permitted caller whose write completes removes the first meetup with that
  id, at its index \<open>i\<close>, answers with that meetup, and stores the others as they were
  and in their order. When the ids are pairwise distinct, as the registry's invariant
  has it, what is stored is exactly the meetups with another id, none of which has the
  id; and whenever the list command that follows answers, it answers with exactly
  these meetups, or that there are none.
\<close>

theorem eliminar_quedada_removes:
  assumes "ms = meetups (get_meetups f)" and "id_quedada \<in> set (map meetup_id ms)"
  shows "\<exists>i ms'. i < length ms \<and> meetup_id (ms ! i) = id_quedada
           \<and> ms' = take i ms @ drop (Suc i) ms
           \<and> eliminar_quedada True id_quedada WriteOk f
               = (Deleted (ms ! i), Document \<lparr>meetups = ms'\<rparr>)
           \<and> (distinct (map meetup_id ms) \<longrightarrow>
                ms' = filter (\<lambda>m. meetup_id m \<noteq> id_quedada) ms
                \<and> id_quedada \<notin> set (map meetup_id ms')
                \<and> (\<forall>r. quedadas fromisoformat (Document \<lparr>meetups = ms'\<rparr>) = Inr r \<longrightarrow>
                      r = (if ms' = [] then NoMeetups else MeetupList ms')))"
proof -
  from assms(2) obtain i where i: "find_meetup_index id_quedada ms = Some i"
    using find_meetup_index_None [of id_quedada ms] by (cases "find_meetup_index id_quedada ms") simp_all
  from find_meetup_index_Some [OF i]
  have len: "i < length ms" and idi: "meetup_id (ms ! i) = id_quedada" by simp_all
  define ms' where "ms' = take i ms @ drop (Suc i) ms"
  have run: "eliminar_quedada True id_quedada WriteOk f
               = (Deleted (ms ! i), Document \<lparr>meetups = ms'\<rparr>)"
    using i by (simp add: eliminar_quedada_def assms(1) [symmetric] Let_def ms'_def)
  have rest: "ms' = filter (\<lambda>m. meetup_id m \<noteq> id_quedada) ms
                \<and> id_quedada \<notin> set (map meetup_id ms')
                \<and> (\<forall>r. quedadas fromisoformat (Document \<lparr>meetups = ms'\<rparr>) = Inr r \<longrightarrow>
                      r = (if ms' = [] then NoMeetups else MeetupList ms'))"
    if d: "distinct (map meetup_id ms)"
  proof -
    have "ms' = filter (\<lambda>m. meetup_id m \<noteq> id_quedada) ms"
      using remove_nth_filter [OF d len] idi by (simp add: ms'_def)
    moreover from this have "id_quedada \<notin> set (map meetup_id ms')" by auto
    moreover have "\<forall>r. quedadas fromisoformat (Document \<lparr>meetups = ms'\<rparr>) = Inr r \<longrightarrow>
                      r = (if ms' = [] then NoMeetups else MeetupList ms')"
      by (auto simp: quedadas_def split: option.splits)
    ultimately show ?thesis by simp
  qed
  from len idi run rest ms'_def show ?thesis by blast
qed


theorem eliminar_quedada_removes_witness:
  "[\<lparr>meetup_id = 1, title = ''Picnic'', description = ''Bring food'',
      date = ''2024-06-01T18:00:00+00:00'', location = ''Park'', status = ''activo'',
      participants = []\<rparr>,
    \<lparr>meetup_id = 2, title = ''Cena'', description = ''Tapas'',
      date = ''2024-06-02T21:00:00+00:00'', location = ''Bar'', status = ''pendiente'',
      participants = []\<rparr>]
   = meetups (get_meetups (Document \<lparr>meetups =
      [\<lparr>meetup_id = 1, title = ''Picnic'', description = ''Bring food'',
         date = ''2024-06-01T18:00:00+00:00'', location = ''Park'', status = ''activo'',
         participants = []\<rparr>,
       \<lparr>meetup_id = 2, title = ''Cena'', description = ''Tapas'',
         date = ''2024-06-02T21:00:00+00:00'', location = ''Bar'', status = ''pendiente'',
         participants = []\<rparr>]\<rparr>))
   \<and> 1 \<in> set (map meetup_id
      [\<lparr>meetup_id = 1, title = ''Picnic'', description = ''Bring food'',
         date = ''2024-06-01T18:00:00+00:00'', location = ''Park'', status = ''activo'',
         participants = []\<rparr>,
       \<lparr>meetup_id = 2, title = ''Cena'', description = ''Tapas'',
         date = ''2024-06-02T21:00:00+00:00'', location = ''Bar'', status = ''pendiente'',
         participants = []\<rparr>])
   \<and> distinct (map meetup_id
      [\<lparr>meetup_id = 1, title = ''Picnic'', description = ''Bring food'',
         date = ''2024-06-01T18:00:00+00:00'', location = ''Park'', status = ''activo'',
         participants = []\<rparr>,
       \<lparr>meetup_id = 2, title = ''Cena'', description = ''Tapas'',
         date = ''2024-06-02T21:00:00+00:00'', location = ''Bar'', status = ''pendiente'',
         participants = []\<rparr>])
   \<and> eliminar_quedada True 1 WriteOk (Document \<lparr>meetups =
      [\<lparr>meetup_id = 1, title = ''Picnic'', description = ''Bring food'',
         date = ''2024-06-01T18:00:00+00:00'', location = ''Park'', status = ''activo'',
         participants = []\<rparr>,
       \<lparr>meetup_id = 2, title = ''Cena'', description = ''Tapas'',
         date = ''2024-06-02T21:00:00+00:00'', location = ''Bar'', status = ''pendiente'',
         participants = []\<rparr>]\<rparr>)
     = (Deleted \<lparr>meetup_id = 1, title = ''Picnic'', description = ''Bring food'',
         date = ''2024-06-01T18:00:00+00:00'', location = ''Park'', status = ''activo'',
         participants = []\<rparr>,
        Document \<lparr>meetups =
          [\<lparr>meetup_id = 2, title = ''Cena'', description = ''Tapas'',
             date = ''2024-06-02T21:00:00+00:00'', location = ''Bar'', status = ''pendiente'',
             participants = []\<rparr>]\<rparr>)
   \<and> quedadas (\<lambda>s. s = ''2024-06-02T21:00:00+00:00'') (Document \<lparr>meetups =
          [\<lparr>meetup_id = 2, title = ''Cena'', description = ''Tapas'',
             date = ''2024-06-02T21:00:00+00:00'', location = ''Bar'', status = ''pendiente'',
             participants = []\<rparr>]\<rparr>)
     = Inr (MeetupList
          [\<lparr>meetup_id = 2, title = ''Cena'', description = ''Tapas'',
             date = ''2024-06-02T21:00:00+00:00'', location = ''Bar'', status = ''pendiente'',
             participants = []\<rparr>])"
proof -
  define m1 where "m1 = \<lparr>meetup_id = 1, title = ''Picnic'', description = ''Bring food'',
      date = ''2024-06-01T18:00:00+00:00'', location = ''Park'', status = ''activo'',
      participants = []\<rparr>"
  define m2 where "m2 = \<lparr>meetup_id = 2, title = ''Cena'', description = ''Tapas'',
      date = ''2024-06-02T21:00:00+00:00'', location = ''Bar'', status = ''pendiente'',
      participants = []\<rparr>"
  have ids: "meetup_id m1 = 1" "meetup_id m2 = 2" by (simp_all add: m1_def m2_def)
  have a: "[m1, m2] = meetups (get_meetups (Document \<lparr>meetups = [m1, m2]\<rparr>))"
    by (simp add: get_meetups_def)
  have b: "1 \<in> set (map meetup_id [m1, m2])" by (simp add: ids)
  have c: "distinct (map meetup_id [m1, m2])" by (simp add: ids)
  from eliminar_quedada_removes [OF a b] obtain i ms' where
    i: "i < length [m1, m2]" "meetup_id ([m1, m2] ! i) = 1"
    and ms': "ms' = take i [m1, m2] @ drop (Suc i) [m1, m2]"
    and r: "eliminar_quedada True 1 WriteOk (Document \<lparr>meetups = [m1, m2]\<rparr>)
              = (Deleted ([m1, m2] ! i), Document \<lparr>meetups = ms'\<rparr>)"
    by blast
  from i have "i = 0" by (cases i) (auto simp: ids less_Suc_eq)
  with ms' r have "eliminar_quedada True 1 WriteOk (Document \<lparr>meetups = [m1, m2]\<rparr>)
              = (Deleted m1, Document \<lparr>meetups = [m2]\<rparr>)" by simp
  moreover have "quedadas (\<lambda>s. s = ''2024-06-02T21:00:00+00:00'') (Document \<lparr>meetups = [m2]\<rparr>)
              = Inr (MeetupList [m2])"
    by (simp add: quedadas_def m2_def)
  ultimately show ?thesis using a b c unfolding m1_def m2_def by blast
qed

subsection \<open>Creating\<close>

lemma crear_quedada_accepted:
  assumes "date_regex fecha" and "time_regex hora" and "parse_fecha_hora fecha hora = Inr dt"
  shows "crear_quedada titulo descripcion fecha hora lugar estado WriteOk f
     = (Created \<lparr>meetup_id = generate_meetup_id f, title = titulo,
                  description = descripcion, date = isoformat dt, location = lugar,
                  status = estado, participants = []\<rparr>,
        Document \<lparr>meetups = meetups (get_meetups f) @
                 [\<lparr>meetup_id = generate_meetup_id f, title = titulo,
                   description = descripcion, date = isoformat dt, location = lugar,
                   status = estado, participants = []\<rparr>]\<rparr>)"
  using assms by (simp add: crear_quedada_def Let_def)

lemma crear_quedada_rejected_iff:
  "date_rejected (fst (crear_quedada titulo descripcion fecha hora lugar estado w f))
     \<longleftrightarrow> \<not> (date_regex fecha \<and> time_regex hora \<and> (\<exists>dt. parse_fecha_hora fecha hora = Inr dt))"
  by (cases "parse_fecha_hora fecha hora"; cases w)
     (simp_all add: crear_quedada_def Let_def)

text \<open>
  C4 (counterexample). The claim says that a create whose title or description is empty
  after trimming is rejected and leaves the registry as it was. With a title of one
  space and an empty description, on the empty registry, the create is answered with
  the embed of the new meetup, and the registry holds it.
\<close>

theorem crear_quedada_blank_title_counterexample:
  "crear_quedada '' '' '''' (str ''2024-06-01'') (str ''18:00'') ''Park'' ''activo'' WriteOk
      (Document \<lparr>meetups = []\<rparr>)
     = (Created \<lparr>meetup_id = 1, title = '' '', description = '''',
                  date = ''2024-06-01T18:00:00+00:00'', location = ''Park'',
                  status = ''activo'', participants = []\<rparr>,
        Document \<lparr>meetups = [\<lparr>meetup_id = 1, title = '' '', description = '''',
                  date = ''2024-06-01T18:00:00+00:00'', location = ''Park'',
                  status = ''activo'', participants = []\<rparr>]\<rparr>)"
  by (simp add: eval_defs)

text \<open>
  C4 (as amended). The create handler does not look at the title nor at the
  description: whether it rejects depends on the date and the time only, so the answer
  is a rejection for one title and description exactly when it is for any other; and
  whenever date and time pass, the create whose write completes stores the meetup with
  the title and the description as they were given, empty or blank ones included.
\<close>

theorem crear_quedada_title_description_unchecked:
  "(date_rejected (fst (crear_quedada titulo descripcion fecha hora lugar estado w f))
      \<longleftrightarrow> date_rejected (fst (crear_quedada titulo' descripcion' fecha hora lugar estado w f)))
   \<and> (\<not> date_rejected (fst (crear_quedada titulo descripcion fecha hora lugar estado w f)) \<longrightarrow>
        (\<exists>m. crear_quedada titulo descripcion fecha hora lugar estado WriteOk f
               = (Created m, Document \<lparr>meetups = meetups (get_meetups f) @ [m]\<rparr>)
             \<and> title m = titulo \<and> description m = descripcion))"
proof -
  have "\<exists>m. crear_quedada titulo descripcion fecha hora lugar estado WriteOk f
               = (Created m, Document \<lparr>meetups = meetups (get_meetups f) @ [m]\<rparr>)
             \<and> title m = titulo \<and> description m = descripcion"
    if "\<not> date_rejected (fst (crear_quedada titulo descripcion fecha hora lugar estado w f))"
  proof -
    from that obtain dt where "date_regex fecha" "time_regex hora"
      "parse_fecha_hora fecha hora = Inr dt"
      unfolding crear_quedada_rejected_iff by blast
    from crear_quedada_accepted [OF this] show ?thesis by simp
  qed
  then show ?thesis by (simp only: crear_quedada_rejected_iff) blast
qed

theorem crear_quedada_title_description_unchecked_witness:
  "\<not> date_rejected (fst (crear_quedada '' '' '''' (str ''2024-06-01'') (str ''18:00'') ''Park'' ''activo''
        OpenFails (Document \<lparr>meetups = []\<rparr>)))
   \<and> (\<exists>m. crear_quedada '' '' '''' (str ''2024-06-01'') (str ''18:00'') ''Park'' ''activo'' WriteOk
             (Document \<lparr>meetups = []\<rparr>)
            = (Created m, Document \<lparr>meetups = meetups (get_meetups (Document \<lparr>meetups = []\<rparr>)) @ [m]\<rparr>)
          \<and> title m = '' '' \<and> description m = '''')"
proof -
  have a: "\<not> date_rejected (fst (crear_quedada '' '' '''' (str ''2024-06-01'') (str ''18:00'') ''Park''
        ''activo'' OpenFails (Document \<lparr>meetups = []\<rparr>)))"
    by (simp add: eval_defs)
  with crear_quedada_title_description_unchecked [of "'' ''" "''''" "str ''2024-06-01''" "str ''18:00''"
      "''Park''" "''activo''" OpenFails "Document \<lparr>meetups = []\<rparr>" "'' ''" "''''"]
  show ?thesis by blast
qed





subsection \<open>The date and the time of a create\<close>

lemma decimal_Some:
  assumes "decimal c = Some v"
  shows "\<exists>z \<in> set unicode_zeros. z \<le> c \<and> c < z + 10 \<and> v = c - z"
proof -
  from assms obtain z where z: "find (\<lambda>z. z \<le> c \<and> c < z + 10) unicode_zeros = Some z"
    and v: "v = c - z"
    by (auto simp: decimal_def)
  from z have "z \<in> set unicode_zeros \<and> z \<le> c \<and> c < z + 10"
    by (auto simp: find_Some_iff)
  with v show ?thesis by blast
qed

lemma digit_val_less: "is_digit c \<Longrightarrow> digit_val c < 10"
proof -
  assume "is_digit c"
  then obtain v where v: "decimal c = Some v" by (auto simp: is_digit_def)
  from decimal_Some [OF v] have "v < 10" by auto
  with v show ?thesis by (simp add: digit_val_def)
qed

lemma unicode_zeros_ranges:
  "\<forall>z \<in> set unicode_zeros.
     z = 48 \<or> (1632 \<le> z \<and> z + 10 \<le> 5760) \<or> (6112 \<le> z \<and> z + 10 \<le> 8192) \<or> 42528 \<le> z"
  by (simp add: unicode_zeros_def)

lemma is_digit_range:
  assumes "is_digit c"
  shows "(48 \<le> c \<and> c < 58) \<or> (1632 \<le> c \<and> c < 5760) \<or> (6112 \<le> c \<and> c < 8192) \<or> 42528 \<le> c"
proof -
  from assms obtain v where "decimal c = Some v" by (auto simp: is_digit_def)
  from decimal_Some [OF this] obtain z where z: "z \<in> set unicode_zeros" "z \<le> c" "c < z + 10"
    by blast
  from unicode_zeros_ranges z(1)
  have "z = 48 \<or> (1632 \<le> z \<and> z + 10 \<le> 5760) \<or> (6112 \<le> z \<and> z + 10 \<le> 8192) \<or> 42528 \<le> z"
    by blast
  with z(2,3) show ?thesis by linarith
qed

lemma is_digit_other:
  assumes "is_digit c"
  shows "c \<noteq> 45" "c \<noteq> 43" "c \<noteq> 58" "c \<noteq> 10" "\<not> is_space c"
  using is_digit_range [OF assms] by (auto simp: is_space_def)

lemma match_digits_Some:
  "match_digits n s = Some r \<longleftrightarrow> (\<exists>ds. s = ds @ r \<and> length ds = n \<and> list_all is_digit ds)"
proof (induction n arbitrary: s)
  case 0
  then show ?case by auto
next
  case (Suc n)
  show ?case
  proof (cases s)
    case Nil
    then show ?thesis by simp
  next
    case (Cons c cs)
    show ?thesis
    proof
      assume "match_digits (Suc n) s = Some r"
      with Cons have c: "is_digit c" and "match_digits n cs = Some r"
        by (simp_all split: if_splits)
      with Suc.IH obtain ds where "cs = ds @ r" "length ds = n" "list_all is_digit ds" by blast
      with c Cons have "s = (c # ds) @ r \<and> length (c # ds) = Suc n \<and> list_all is_digit (c # ds)"
        by simp
      then show "\<exists>ds. s = ds @ r \<and> length ds = Suc n \<and> list_all is_digit ds" by blast
    next
      assume "\<exists>ds. s = ds @ r \<and> length ds = Suc n \<and> list_all is_digit ds"
      then obtain ds where ds: "s = ds @ r" "length ds = Suc n" "list_all is_digit ds" by blast
      then obtain e es where e: "ds = e # es" by (cases ds) simp_all
      with ds Cons have "c = e" "cs = es @ r" "length es = n" "list_all is_digit es" "is_digit c"
        by simp_all
      with Suc.IH [of cs] Cons show "match_digits (Suc n) s = Some r" by auto
    qed
  qed
qed

lemma match_char_Some: "match_char c s = Some r \<longleftrightarrow> s = c # r"
  by (cases s) auto

lemma digits2:
  "length ds = 2 \<and> list_all is_digit ds \<longleftrightarrow> (\<exists>a b. ds = [a, b] \<and> is_digit a \<and> is_digit b)"
  by (cases ds; cases "tl ds") (auto simp: length_Suc_conv)

lemma digits4:
  "length ds = 4 \<and> list_all is_digit ds \<longleftrightarrow>
     (\<exists>a b c d. ds = [a, b, c, d] \<and> is_digit a \<and> is_digit b \<and> is_digit c \<and> is_digit d)"
proof
  assume l: "length ds = 4 \<and> list_all is_digit ds"
  then obtain a b c d where "ds = [a, b, c, d]"
    by (auto simp: length_Suc_conv eval_nat_numeral)
  with l show "\<exists>a b c d. ds = [a, b, c, d] \<and> is_digit a \<and> is_digit b \<and> is_digit c \<and> is_digit d"
    by simp
qed auto

lemma date_regex_iff:
  "date_regex s \<longleftrightarrow>
     (\<exists>a b c d e f g h r. s = [a, b, c, d, 45, e, f, 45, g, h] @ r
        \<and> is_digit a \<and> is_digit b \<and> is_digit c \<and> is_digit d \<and> is_digit e \<and> is_digit f
        \<and> is_digit g \<and> is_digit h \<and> (r = [] \<or> r = [10]))"
  (is "?L \<longleftrightarrow> ?R")
proof
  assume ?L
  then obtain r1 r2 r3 r4 r where m: "match_digits 4 s = Some r1" "match_char 45 r1 = Some r2"
    "match_digits 2 r2 = Some r3" "match_char 45 r3 = Some r4" "match_digits 2 r4 = Some r"
    and e: "match_end r"
    by (auto simp: date_regex_def Option.bind_eq_Some_conv split: option.splits)
  from m(1) obtain d1 where d1: "s = d1 @ r1" "length d1 = 4 \<and> list_all is_digit d1"
    unfolding match_digits_Some by blast
  from m(3) obtain d2 where d2: "r2 = d2 @ r3" "length d2 = 2 \<and> list_all is_digit d2"
    unfolding match_digits_Some by blast
  from m(5) obtain d3 where d3: "r4 = d3 @ r" "length d3 = 2 \<and> list_all is_digit d3"
    unfolding match_digits_Some by blast
  from m(2) m(4) have c: "r1 = 45 # r2" "r3 = 45 # r4"
    unfolding match_char_Some by simp_all
  from d1(2) d2(2) d3(2) obtain a b c' d e' f g h where
    "d1 = [a, b, c', d]" "is_digit a" "is_digit b" "is_digit c'" "is_digit d"
    "d2 = [e', f]" "is_digit e'" "is_digit f" "d3 = [g, h]" "is_digit g" "is_digit h"
    unfolding digits2 digits4 by blast
  with d1(1) d2(1) d3(1) c e show ?R by (simp add: match_end_def)
next
  assume ?R
  then obtain a b c d e f g h r where s: "s = [a, b, c, d, 45, e, f, 45, g, h] @ r"
    and dg: "is_digit a" "is_digit b" "is_digit c" "is_digit d" "is_digit e" "is_digit f"
      "is_digit g" "is_digit h" and r: "r = [] \<or> r = [10]"
    by blast
  show ?L unfolding s using dg r
    by (simp add: date_regex_def match_digits_numeral match_end_def)
qed

lemma time_regex_iff:
  "time_regex s \<longleftrightarrow>
     (\<exists>a b c d r. s = [a, b, 58, c, d] @ r
        \<and> is_digit a \<and> is_digit b \<and> is_digit c \<and> is_digit d \<and> (r = [] \<or> r = [10]))"
  (is "?L \<longleftrightarrow> ?R")
proof
  assume ?L
  then obtain r1 r2 r where m: "match_digits 2 s = Some r1" "match_char 58 r1 = Some r2"
    "match_digits 2 r2 = Some r"
    and e: "match_end r"
    by (auto simp: time_regex_def Option.bind_eq_Some_conv split: option.splits)
  from m(1) obtain d1 where d1: "s = d1 @ r1" "length d1 = 2 \<and> list_all is_digit d1"
    unfolding match_digits_Some by blast
  from m(3) obtain d2 where d2: "r2 = d2 @ r" "length d2 = 2 \<and> list_all is_digit d2"
    unfolding match_digits_Some by blast
  from m(2) have c: "r1 = 58 # r2"
    unfolding match_char_Some by simp_all
  from d1(2) d2(2) obtain a b c' d where
    "d1 = [a, b]" "is_digit a" "is_digit b" "d2 = [c', d]" "is_digit c'" "is_digit d"
    unfolding digits2 by blast
  with d1(1) d2(1) c e show ?R by (simp add: match_end_def)
next
  assume ?R
  then obtain a b c d r where s: "s = [a, b, 58, c, d] @ r"
    and dg: "is_digit a" "is_digit b" "is_digit c" "is_digit d" and r: "r = [] \<or> r = [10]"
    by blast
  show ?L unfolding s using dg r
    by (simp add: time_regex_def match_digits_numeral match_end_def)
qed

lemma number_2: "number [a, b] = 10 * digit_val a + digit_val b"
  by (simp add: number_def)

lemma number_4:
  "number [a, b, c, d] = 10 * (10 * (10 * digit_val a + digit_val b) + digit_val c) + digit_val d"
  by (simp add: number_def)

lemma is_space_line_feed: "is_space 10"
  by (simp add: is_space_def)

lemma py_int_2:
  assumes "is_digit a" "is_digit b" "r = [] \<or> r = [10]"
  shows "py_int ([a, b] @ r) = Inr (int (number [a, b]))"
proof -
  note o = is_digit_other [OF assms(1)] is_digit_other [OF assms(2)]
  have "py_strip ([a, b] @ r) = [a, b]"
    using assms(3) o by (auto simp: py_strip_def is_space_line_feed)
  then show ?thesis using assms(1,2) o by (simp add: py_int_def number_2)
qed

lemma py_int_2_plain:
  assumes "is_digit a" "is_digit b"
  shows "py_int [a, b] = Inr (int (number [a, b]))"
  using py_int_2 [OF assms, of "[]"] by simp

lemma py_int_4:
  assumes "is_digit a" "is_digit b" "is_digit c" "is_digit d"
  shows "py_int [a, b, c, d] = Inr (int (number [a, b, c, d]))"
proof -
  note o = is_digit_other [OF assms(1)] is_digit_other [OF assms(2)] is_digit_other [OF assms(3)]
    is_digit_other [OF assms(4)]
  have "py_strip [a, b, c, d] = [a, b, c, d]"
    using o by (simp add: py_strip_def)
  then show ?thesis using assms o by (simp add: py_int_def number_4)
qed

lemma split_sep_date:
  assumes "is_digit a" "is_digit b" "is_digit c" "is_digit d" "is_digit e" "is_digit f"
      "is_digit g" "is_digit h" "r = [] \<or> r = [10]"
  shows "split_sep 45 ([a, b, c, d, 45, e, f, 45, g, h] @ r)
           = [a, b, c, d] # [e, f] # ([g, h] @ r) # []"
  using assms is_digit_other(1) [of a] is_digit_other(1) [of b] is_digit_other(1) [of c]
    is_digit_other(1) [of d] is_digit_other(1) [of e] is_digit_other(1) [of f]
    is_digit_other(1) [of g] is_digit_other(1) [of h]
  by auto

lemma split_sep_time:
  assumes "is_digit a" "is_digit b" "is_digit c" "is_digit d" "r = [] \<or> r = [10]"
  shows "split_sep 58 ([a, b, 58, c, d] @ r) = [a, b] # ([c, d] @ r) # []"
  using assms is_digit_other(3) [of a] is_digit_other(3) [of b] is_digit_other(3) [of c]
    is_digit_other(3) [of d]
  by auto

lemma parse_fecha_hora_digits:
  assumes "is_digit a" "is_digit b" "is_digit c" "is_digit d" "is_digit e" "is_digit f"
      "is_digit g" "is_digit h" "r = [] \<or> r = [10]"
    and "is_digit p" "is_digit q" "is_digit u" "is_digit v" "r' = [] \<or> r' = [10]"
  shows "parse_fecha_hora ([a, b, c, d, 45, e, f, 45, g, h] @ r) ([p, q, 58, u, v] @ r')
         = mk_datetime (int (number [a, b, c, d])) (int (number [e, f])) (int (number [g, h]))
             (int (number [p, q])) (int (number [u, v]))"
proof -
  have "map py_int (split_sep 45 ([a, b, c, d, 45, e, f, 45, g, h] @ r))
          = [Inr (int (number [a, b, c, d])), Inr (int (number [e, f])),
             Inr (int (number [g, h]))]"
    using assms by (simp only: split_sep_date py_int_4 py_int_2 py_int_2_plain list.map)
  moreover have "map py_int (split_sep 58 ([p, q, 58, u, v] @ r'))
          = [Inr (int (number [p, q])), Inr (int (number [u, v]))]"
    using assms by (simp only: split_sep_time py_int_2 py_int_2_plain list.map)
  ultimately show ?thesis by (simp only: parse_fecha_hora_def) simp
qed

lemma drop_line_feed_digits:
  assumes "is_digit h" "r = [] \<or> r = [10]"
  shows "drop_line_feed (xs @ [h] @ r) = xs @ [h]"
  using assms is_digit_other(4) [OF assms(1)]
  by (auto simp: drop_line_feed_def butlast_append)

lemma drop_line_feed_cases:
  "s = drop_line_feed s \<or> s = drop_line_feed s @ [10]"
proof (cases "s \<noteq> [] \<and> last s = 10")
  case True
  then have "butlast s @ [10] = s" using append_butlast_last_id [of s] by simp
  with True show ?thesis by (simp add: drop_line_feed_def)
next
  case False
  then show ?thesis by (auto simp: drop_line_feed_def)
qed

lemma length_10:
  assumes "length t = 10"
  shows "\<exists>a b c d x e f y g h. t = [a, b, c, d, x, e, f, y, g, h]"
  using assms by (auto simp: length_Suc_conv eval_nat_numeral)

lemma length_5:
  assumes "length t = 5"
  shows "\<exists>a b x c d. t = [a, b, x, c, d]"
  using assms by (auto simp: length_Suc_conv eval_nat_numeral)

lemma read_date_iff:
  "read_date s = Some (y, m, d) \<longleftrightarrow>
     (\<exists>a b c d' e f g h r. s = [a, b, c, d', 45, e, f, 45, g, h] @ r
        \<and> is_digit a \<and> is_digit b \<and> is_digit c \<and> is_digit d' \<and> is_digit e \<and> is_digit f
        \<and> is_digit g \<and> is_digit h \<and> (r = [] \<or> r = [10])
        \<and> y = number [a, b, c, d'] \<and> m = number [e, f] \<and> d = number [g, h])"
  (is "?L \<longleftrightarrow> ?R")
proof
  assume L: ?L
  define t where "t = drop_line_feed s"
  from L have len: "length t = 10"
    by (simp add: read_date_def t_def [symmetric] Let_def split: if_splits)
  from length_10 [OF len] obtain a b c d' x e f x' g h
    where t: "t = [a, b, c, d', x, e, f, x', g, h]" by blast
  from L have "x = 45" "x' = 45" "is_digit a" "is_digit b" "is_digit c" "is_digit d'"
    "is_digit e" "is_digit f" "is_digit g" "is_digit h"
    "y = number [a, b, c, d']" "m = number [e, f]" "d = number [g, h]"
    by (simp_all add: read_date_def t_def [symmetric] Let_def t split: if_splits)
  moreover from drop_line_feed_cases [of s] have "s = t @ [] \<or> s = t @ [10]"
    by (simp add: t_def)
  ultimately show ?R unfolding t by auto
next
  assume ?R
  then obtain a b c d' e f g h r where s: "s = [a, b, c, d', 45, e, f, 45, g, h] @ r"
    and dg: "is_digit a" "is_digit b" "is_digit c" "is_digit d'" "is_digit e" "is_digit f"
      "is_digit g" "is_digit h" and r: "r = [] \<or> r = [10]"
    and v: "y = number [a, b, c, d']" "m = number [e, f]" "d = number [g, h]"
    by blast
  have "drop_line_feed s = [a, b, c, d', 45, e, f, 45, g, h]"
    using drop_line_feed_digits [OF dg(8) r, of "[a, b, c, d', 45, e, f, 45, g]"]
    by (simp add: s)
  then show ?L using dg v by (simp add: read_date_def)
qed

lemma read_time_iff:
  "read_time s = Some (h, mi) \<longleftrightarrow>
     (\<exists>a b c d r. s = [a, b, 58, c, d] @ r
        \<and> is_digit a \<and> is_digit b \<and> is_digit c \<and> is_digit d \<and> (r = [] \<or> r = [10])
        \<and> h = number [a, b] \<and> mi = number [c, d])"
  (is "?L \<longleftrightarrow> ?R")
proof
  assume L: ?L
  define t where "t = drop_line_feed s"
  from L have len: "length t = 5"
    by (simp add: read_time_def t_def [symmetric] Let_def split: if_splits)
  from length_5 [OF len] obtain a b x c d
    where t: "t = [a, b, x, c, d]" by blast
  from L have "x = 58" "is_digit a" "is_digit b" "is_digit c" "is_digit d"
    "h = number [a, b]" "mi = number [c, d]"
    by (simp_all add: read_time_def t_def [symmetric] Let_def t split: if_splits)
  moreover from drop_line_feed_cases [of s] have "s = t @ [] \<or> s = t @ [10]"
    by (simp add: t_def)
  ultimately show ?R unfolding t by auto
next
  assume ?R
  then obtain a b c d r where s: "s = [a, b, 58, c, d] @ r"
    and dg: "is_digit a" "is_digit b" "is_digit c" "is_digit d" and r: "r = [] \<or> r = [10]"
    and v: "h = number [a, b]" "mi = number [c, d]"
    by blast
  have "drop_line_feed s = [a, b, 58, c, d]"
    using drop_line_feed_digits [OF dg(4) r, of "[a, b, 58, c]"]
    by (simp add: s)
  then show ?L using dg v by (simp add: read_time_def)
qed

lemma is_leap_leap_year: "is_leap (int y) \<longleftrightarrow> leap_year y"
proof -
  have a: "int y mod 4 = 0 \<longleftrightarrow> 4 dvd y" "int y mod 100 = 0 \<longleftrightarrow> 100 dvd y"
    "int y mod 400 = 0 \<longleftrightarrow> 400 dvd y"
    by presburger+
  have b: "400 dvd y \<Longrightarrow> 4 dvd y" by presburger
  show ?thesis unfolding is_leap_def leap_year_def a using b by auto
qed

lemma month_cases:
  assumes "1 \<le> (m::nat)" "m \<le> 12"
  shows "m = 1 \<or> m = 2 \<or> m = 3 \<or> m = 4 \<or> m = 5 \<or> m = 6 \<or> m = 7 \<or> m = 8 \<or> m = 9
       \<or> m = 10 \<or> m = 11 \<or> m = 12"
  using assms by arith

lemma days_in_month_calendar:
  assumes "1 \<le> m" "m \<le> 12"
  shows "days_in_month (int y) (int m)
           = int (if m = 4 \<or> m = 6 \<or> m = 9 \<or> m = 11 then 30
                  else if m = 2 then (if leap_year y then 29 else 28)
                  else 31)"
  using month_cases [OF assms]
  by (elim disjE) (simp_all add: days_in_month_def DAYS_IN_MONTH_def is_leap_leap_year)

lemma mk_datetime_valid:
  "(\<exists>dt. mk_datetime (int y) (int m) (int d) (int h) (int mi) = Inr dt)
     \<longleftrightarrow> valid_calendar y m d h mi"
proof (cases "1 \<le> m \<and> m \<le> 12")
  case True
  then have "days_in_month (int y) (int m)
           = int (if m = 4 \<or> m = 6 \<or> m = 9 \<or> m = 11 then 30
                  else if m = 2 then (if leap_year y then 29 else 28)
                  else 31)"
    by (simp add: days_in_month_calendar)
  then show ?thesis
    unfolding mk_datetime_def valid_calendar_def by (simp only: of_nat_le_iff) auto
next
  case False
  then show ?thesis by (auto simp: mk_datetime_def valid_calendar_def)
qed

lemma validated_iff:
  "date_regex fecha \<and> time_regex hora \<and> (\<exists>dt. parse_fecha_hora fecha hora = Inr dt)
     \<longleftrightarrow> denotes_valid fecha hora"
  (is "?L \<longleftrightarrow> ?R")
proof
  assume L: ?L
  then obtain a b c d e f g h r where fecha: "fecha = [a, b, c, d, 45, e, f, 45, g, h] @ r"
    and dg: "is_digit a" "is_digit b" "is_digit c" "is_digit d" "is_digit e" "is_digit f"
      "is_digit g" "is_digit h" and r: "r = [] \<or> r = [10]"
    unfolding date_regex_iff by blast
  from L obtain p q u v r' where hora: "hora = [p, q, 58, u, v] @ r'"
    and tg: "is_digit p" "is_digit q" "is_digit u" "is_digit v" and r': "r' = [] \<or> r' = [10]"
    unfolding time_regex_iff by blast
  have "parse_fecha_hora fecha hora
          = mk_datetime (int (number [a, b, c, d])) (int (number [e, f])) (int (number [g, h]))
             (int (number [p, q])) (int (number [u, v]))"
    unfolding fecha hora using dg r tg r' by (rule parse_fecha_hora_digits)
  with L have v: "valid_calendar (number [a, b, c, d]) (number [e, f]) (number [g, h])
      (number [p, q]) (number [u, v])"
    unfolding mk_datetime_valid [symmetric] by simp
  have "read_date fecha = Some (number [a, b, c, d], number [e, f], number [g, h])"
    unfolding read_date_iff using fecha dg r by blast
  moreover have "read_time hora = Some (number [p, q], number [u, v])"
    unfolding read_time_iff using hora tg r' by blast
  ultimately show ?R using v by (simp add: denotes_valid_def)
next
  assume R: ?R
  then obtain y m d h mi where rd: "read_date fecha = Some (y, m, d)"
    and rt: "read_time hora = Some (h, mi)" and v: "valid_calendar y m d h mi"
    by (auto simp: denotes_valid_def split: option.splits)
  from rd obtain a b c d' e f g h' r where fecha: "fecha = [a, b, c, d', 45, e, f, 45, g, h'] @ r"
    and dg: "is_digit a" "is_digit b" "is_digit c" "is_digit d'" "is_digit e" "is_digit f"
      "is_digit g" "is_digit h'" and r: "r = [] \<or> r = [10]"
    and yv: "y = number [a, b, c, d']" "m = number [e, f]" "d = number [g, h']"
    unfolding read_date_iff by blast
  from rt obtain p q u v' r' where hora: "hora = [p, q, 58, u, v'] @ r'"
    and tg: "is_digit p" "is_digit q" "is_digit u" "is_digit v'" and r': "r' = [] \<or> r' = [10]"
    and hv: "h = number [p, q]" "mi = number [u, v']"
    unfolding read_time_iff by blast
  have "date_regex fecha" unfolding date_regex_iff using fecha dg r by blast
  moreover have "time_regex hora" unfolding time_regex_iff using hora tg r' by blast
  moreover have "parse_fecha_hora fecha hora = mk_datetime (int y) (int m) (int d) (int h) (int mi)"
    unfolding fecha hora yv hv using dg r tg r' by (rule parse_fecha_hora_digits)
  ultimately show ?L using v unfolding mk_datetime_valid [symmetric] by simp
qed

lemmas denotes_defs = denotes_valid_def read_date_def read_time_def drop_line_feed_def
  number_def valid_calendar_def leap_year_def is_digit_def digit_val_def decimal_ascii
  decimal_separators str_def Let_def

lemma decimal_fullwidth:
  "decimal 65296 = Some 0" "decimal 65297 = Some 1" "decimal 65298 = Some 2"
  "decimal 65299 = Some 3" "decimal 65300 = Some 4" "decimal 65301 = Some 5"
  "decimal 65302 = Some 6" "decimal 65303 = Some 7" "decimal 65304 = Some 8"
  "decimal 65305 = Some 9"
  by (simp_all add: decimal_def unicode_zeros_def)

text \<open>
  C6. A create is answered with one of the three rejections of date and time exactly
  when its date and time do not denote a date of the calendar and a time of day, and a
  create so rejected leaves the file as it was; so every input that denotes a date and
  a time passes the validation. What the texts denote is read off their characters
  position by position, in the decimal digits of any script, each text alone or closed
  by one line feed (which the \<^verbatim>\<open>$\<close> of the patterns lets pass and \<^verbatim>\<open>int\<close>
  drops); the calendar is stated by its rules, apart from the library's table.
\<close>

theorem crear_quedada_date_validation:
  "(date_rejected (fst (crear_quedada titulo descripcion fecha hora lugar estado w f)) \<longrightarrow>
      snd (crear_quedada titulo descripcion fecha hora lugar estado w f) = f)
   \<and> (date_rejected (fst (crear_quedada titulo descripcion fecha hora lugar estado w f)) \<longleftrightarrow>
      \<not> denotes_valid fecha hora)"
proof -
  obtain r f' where c: "crear_quedada titulo descripcion fecha hora lugar estado w f = (r, f')"
    by (cases "crear_quedada titulo descripcion fecha hora lugar estado w f")
  from crear_quedada_cases [OF c] have "date_rejected r \<longrightarrow> f' = f" by auto
  with c show ?thesis
    using crear_quedada_rejected_iff [of titulo descripcion fecha hora lugar estado w f]
    by (simp only: validated_iff fst_conv snd_conv)
qed

theorem crear_quedada_date_validation_witness:
  "\<not> denotes_valid (str ''2023-04-31'') (str ''18:30'')
   \<and> date_rejected (fst (crear_quedada ''Picnic'' ''Bring food'' (str ''2023-04-31'')
        (str ''18:30'') ''Park'' ''activo'' WriteOk (Document \<lparr>meetups = []\<rparr>)))
   \<and> snd (crear_quedada ''Picnic'' ''Bring food'' (str ''2023-04-31'') (str ''18:30'') ''Park''
        ''activo'' WriteOk (Document \<lparr>meetups = []\<rparr>)) = Document \<lparr>meetups = []\<rparr>
   \<and> \<not> denotes_valid (str ''2023-13-01'') (str ''18:30'')
   \<and> date_rejected (fst (crear_quedada ''Picnic'' ''Bring food'' (str ''2023-13-01'')
        (str ''18:30'') ''Park'' ''activo'' WriteOk (Document \<lparr>meetups = []\<rparr>)))
   \<and> \<not> denotes_valid (str ''2023-12-31'') (str ''25:00'')
   \<and> date_rejected (fst (crear_quedada ''Picnic'' ''Bring food'' (str ''2023-12-31'')
        (str ''25:00'') ''Park'' ''activo'' WriteOk (Document \<lparr>meetups = []\<rparr>)))
   \<and> \<not> denotes_valid (str ''2023-02-29'') (str ''18:30'')
   \<and> date_rejected (fst (crear_quedada ''Picnic'' ''Bring food'' (str ''2023-02-29'')
        (str ''18:30'') ''Park'' ''activo'' WriteOk (Document \<lparr>meetups = []\<rparr>)))
   \<and> denotes_valid (str ''2024-02-29'') (str ''18:30'')
   \<and> \<not> date_rejected (fst (crear_quedada ''Picnic'' ''Bring food'' (str ''2024-02-29'')
        (str ''18:30'') ''Park'' ''activo'' WriteOk (Document \<lparr>meetups = []\<rparr>)))
   \<and> denotes_valid (str ''2023-01-31'') (str ''23:59'')
   \<and> \<not> date_rejected (fst (crear_quedada ''Picnic'' ''Bring food'' (str ''2023-01-31'')
        (str ''23:59'') ''Park'' ''activo'' WriteOk (Document \<lparr>meetups = []\<rparr>)))"
proof -
  have a: "\<not> denotes_valid (str ''2023-04-31'') (str ''18:30'')"
    "\<not> denotes_valid (str ''2023-13-01'') (str ''18:30'')"
    "\<not> denotes_valid (str ''2023-12-31'') (str ''25:00'')"
    "\<not> denotes_valid (str ''2023-02-29'') (str ''18:30'')"
    "denotes_valid (str ''2024-02-29'') (str ''18:30'')"
    "denotes_valid (str ''2023-01-31'') (str ''23:59'')"
    by (simp_all add: denotes_defs)
  from a
    crear_quedada_date_validation [of "''Picnic''" "''Bring food''" "str ''2023-04-31''"
      "str ''18:30''" "''Park''" "''activo''" WriteOk "Document \<lparr>meetups = []\<rparr>"]
    crear_quedada_date_validation [of "''Picnic''" "''Bring food''" "str ''2023-13-01''"
      "str ''18:30''" "''Park''" "''activo''" WriteOk "Document \<lparr>meetups = []\<rparr>"]
    crear_quedada_date_validation [of "''Picnic''" "''Bring food''" "str ''2023-12-31''"
      "str ''25:00''" "''Park''" "''activo''" WriteOk "Document \<lparr>meetups = []\<rparr>"]
    crear_quedada_date_validation [of "''Picnic''" "''Bring food''" "str ''2023-02-29''"
      "str ''18:30''" "''Park''" "''activo''" WriteOk "Document \<lparr>meetups = []\<rparr>"]
    crear_quedada_date_validation [of "''Picnic''" "''Bring food''" "str ''2024-02-29''"
      "str ''18:30''" "''Park''" "''activo''" WriteOk "Document \<lparr>meetups = []\<rparr>"]
    crear_quedada_date_validation [of "''Picnic''" "''Bring food''" "str ''2023-01-31''"
      "str ''23:59''" "''Park''" "''activo''" WriteOk "Document \<lparr>meetups = []\<rparr>"]
  show ?thesis by blast
qed

lemma crear_quedada_date_examples:
  "fst (crear_quedada t de (str ''2023-02-30'') (str ''18:30'') l e w f) = InvalidDateTime"
  "fst (crear_quedada t de (str ''2023-13-01'') (str ''18:30'') l e w f) = InvalidDateTime"
  "fst (crear_quedada t de (str ''2023-12-31'') (str ''25:00'') l e w f) = InvalidDateTime"
  "fst (crear_quedada t de (str ''0000-01-01'') (str ''18:30'') l e w f) = InvalidDateTime"
  "fst (crear_quedada t de (str ''2023-12-31'') (str ''18:60'') l e w f) = InvalidDateTime"
  "fst (crear_quedada t de (str ''1900-02-29'') (str ''18:30'') l e w f) = InvalidDateTime"
  "fst (crear_quedada t de (str ''31-12-2023'') (str ''18:30'') l e w f) = BadDateFormat"
  "fst (crear_quedada t de (str ''2023-12-31'') (str ''6:30'') l e w f) = BadTimeFormat"
  "fst (crear_quedada t de (str ''2023-12-31'' @ [10]) (str ''18:30'') l e WriteOk f)
     = Created \<lparr>meetup_id = generate_meetup_id f, title = t, description = de,
                 date = ''2023-12-31T18:30:00+00:00'', location = l, status = e,
                 participants = []\<rparr>"
  "fst (crear_quedada t de
          [65298, 65296, 65298, 65299, 45, 65297, 65298, 45, 65299, 65297]
          (str ''18:30'') l e WriteOk f)
     = Created \<lparr>meetup_id = generate_meetup_id f, title = t, description = de,
                 date = ''2023-12-31T18:30:00+00:00'', location = l, status = e,
                 participants = []\<rparr>"
  by (simp_all add: crear_quedada_def date_regex_def time_regex_def parse_fecha_hora_def
      py_int_def py_strip_def is_space_def is_digit_def digit_val_def decimal_ascii
      decimal_separators decimal_fullwidth str_def mk_datetime_def days_in_month_def
      DAYS_IN_MONTH_def is_leap_def match_end_def match_digits_numeral isoformat_def
      zfill2_def zfill4_def digit_char_values Let_def)

lemma denotes_valid_examples:
  "denotes_valid (str ''2023-12-31'' @ [10]) (str ''18:30'')"
  "denotes_valid [65298, 65296, 65298, 65299, 45, 65297, 65298, 45, 65299, 65297] (str ''18:30'')"
  "\<not> denotes_valid (str ''0000-01-01'') (str ''18:30'')"
  "\<not> denotes_valid (str ''1900-02-29'') (str ''18:30'')"
  "denotes_valid (str ''2000-02-29'') (str ''00:00'')"
  by (simp_all add: denotes_defs decimal_fullwidth)

subsection \<open>Saving\<close>

text \<open>
  C9 (counterexample). The claim says that no truncated or partly written store is ever
  seen by a load, the save writing a temporary file and replacing the store at once.
  \<^verbatim>\<open>save_meetups\<close> opens the store itself for writing, which truncates it. When the
  write of a registry of two meetups over a store of one fails after that and before
  anything is written, the store is left empty: the save returns \<^verbatim>\<open>False\<close>, and the
  load that follows finds no JSON text and returns the empty registry, which is neither
  the registry before the save nor the one that was being saved.
\<close>

theorem save_meetups_truncates_counterexample:
  "save_meetups (DumpFails '''')
      \<lparr>meetups = [\<lparr>meetup_id = 1, title = ''Picnic'', description = ''Bring food'',
         date = ''2024-06-01T18:00:00+00:00'', location = ''Park'', status = ''activo'',
         participants = []\<rparr>,
       \<lparr>meetup_id = 2, title = ''Cena'', description = ''Tapas'',
         date = ''2024-06-02T21:00:00+00:00'', location = ''Bar'', status = ''pendiente'',
         participants = []\<rparr>]\<rparr>
      (Document \<lparr>meetups = [\<lparr>meetup_id = 1, title = ''Picnic'', description = ''Bring food'',
         date = ''2024-06-01T18:00:00+00:00'', location = ''Park'', status = ''activo'',
         participants = []\<rparr>]\<rparr>)
     = (Unparsable '''', False)
   \<and> json_load (Unparsable '''') = Inl JSONDecodeError
   \<and> get_meetups (Unparsable '''') = \<lparr>meetups = []\<rparr>"
  by (simp add: get_meetups_def)

text \<open>
  C9 (as amended). After a save that returns \<^verbatim>\<open>True\<close> the store holds the whole
  new registry, and a load returns it. The save writes the store in place: a save that
  returns \<^verbatim>\<open>False\<close> either failed to open the store, which then holds what it held
  before, or failed after the store was truncated, and then the store holds the part
  that was written, which is not a JSON text, and a load returns the empty registry.
\<close>

theorem save_meetups_in_place:
  "(save_meetups w d f = (f', True) \<longrightarrow> f' = Document d \<and> get_meetups f' = d)
   \<and> (save_meetups w d f = (f', False) \<longrightarrow>
        (w = OpenFails \<and> f' = f)
        \<or> (\<exists>written. w = DumpFails written \<and> f' = Unparsable written
              \<and> get_meetups f' = \<lparr>meetups = []\<rparr>))"
  by (cases w) (auto simp: get_meetups_def)

theorem save_meetups_in_place_witness:
  "save_meetups WriteOk \<lparr>meetups = []\<rparr> Missing = (Document \<lparr>meetups = []\<rparr>, True)
   \<and> get_meetups (Document \<lparr>meetups = []\<rparr>) = \<lparr>meetups = []\<rparr>
   \<and> save_meetups (DumpFails ''{'') \<lparr>meetups = []\<rparr> Missing = (Unparsable ''{'', False)
   \<and> get_meetups (Unparsable ''{'') = \<lparr>meetups = []\<rparr>"
  using save_meetups_in_place [of WriteOk "\<lparr>meetups = []\<rparr>" Missing "Document \<lparr>meetups = []\<rparr>"]
    save_meetups_in_place [of "DumpFails ''{''" "\<lparr>meetups = []\<rparr>" Missing "Unparsable ''{''"]
  by simp

end
